theory Spec2Isabelle
  imports Complex_Main "HOL-Library.Word"
begin

section \<open>QuickTune room correction: the equaliser and the calibration controller\<close>

text \<open>
  A shallow embedding of \<^verbatim>\<open>eq10.cpp\<close>, \<^verbatim>\<open>quicktune.cpp\<close> and the constants of
  \<^verbatim>\<open>quicktune_config.h\<close>.

  Conventions of the embedding:
  \<^item> a C \<^verbatim>\<open>float\<close> is a \<^typ>\<open>real\<close>: \<^verbatim>\<open>sinf\<close>, \<^verbatim>\<open>cosf\<close>, \<^verbatim>\<open>sqrtf\<close>, \<^verbatim>\<open>powf\<close>
    and \<^verbatim>\<open>log10f\<close> are the real functions and rounding is not modelled. The portable
    branch of every \<^verbatim>\<open>#ifdef ARM_MATH_CM33\<close> is the one embedded;
  \<^item> the file-scope statics of each translation unit are the fields of a record that every
    function takes and returns; a \<^verbatim>\<open>float[n]\<close> array is a list of length \<open>n\<close>;
  \<^item> \<^verbatim>\<open>uint32_t\<close> is \<^typ>\<open>32 word\<close>; the \<^verbatim>\<open>int\<close> counters (band, iteration, error
    code) are \<^typ>\<open>int\<close>: the code never takes them beyond 10, 2 and 3;
  \<^item> a pointer argument that may be \<^verbatim>\<open>NULL\<close> is an \<open>option\<close>;
  \<^item> reading an array outside its bounds is undefined in C; here it is \<open>xs ! i\<close> out of
    range, about which nothing can be proved, and every theorem below is about indices
    within bounds.
\<close>

subsection \<open>Configuration constants (\<^verbatim>\<open>quicktune_config.h\<close>, \<^verbatim>\<open>eq10.h\<close>)\<close>

definition QUICKTUNE_SAMPLE_RATE :: int where
  "QUICKTUNE_SAMPLE_RATE = 48000"

definition QUICKTUNE_BLOCK_SIZE :: nat where
  "QUICKTUNE_BLOCK_SIZE = 32"

definition QUICKTUNE_NUM_BANDS :: int where
  "QUICKTUNE_NUM_BANDS = 10"

definition QUICKTUNE_TONE_SETTLING_SAMPLES :: int where
  "QUICKTUNE_TONE_SETTLING_SAMPLES = 9600"

definition QUICKTUNE_TONE_ANALYSIS_SAMPLES :: int where
  "QUICKTUNE_TONE_ANALYSIS_SAMPLES = 4800"

definition QUICKTUNE_TONE_TOTAL_SAMPLES :: int where
  "QUICKTUNE_TONE_TOTAL_SAMPLES = 14400"

definition QUICKTUNE_BAND_FREQUENCIES :: "real list" where
  "QUICKTUNE_BAND_FREQUENCIES = [25, 40, 63, 100, 160, 250, 400, 630, 1000, 1600]"

definition QUICKTUNE_MEMS_CALIBRATION :: "real list" where
  "QUICKTUNE_MEMS_CALIBRATION = [3, 1.5, 0, 0, 0, 0, 0, 0, 0, 0]"

definition QUICKTUNE_MAX_GAIN_DB :: real where
  "QUICKTUNE_MAX_GAIN_DB = 12"

definition QUICKTUNE_MIN_GAIN_DB :: real where
  "QUICKTUNE_MIN_GAIN_DB = - 12"

definition QUICKTUNE_EQ_Q :: real where
  "QUICKTUNE_EQ_Q = 2"

definition QUICKTUNE_MAX_ITERATIONS :: int where
  "QUICKTUNE_MAX_ITERATIONS = 3"

definition QUICKTUNE_DAMPING_FACTOR :: real where
  "QUICKTUNE_DAMPING_FACTOR = 0.7"

definition QUICKTUNE_ENABLE_ITERATION :: bool where
  "QUICKTUNE_ENABLE_ITERATION = True"

definition QUICKTUNE_TONE_AMPLITUDE :: real where
  "QUICKTUNE_TONE_AMPLITUDE = 0.5"

definition QUICKTUNE_FADE_SAMPLES :: int where
  "QUICKTUNE_FADE_SAMPLES = 480"

definition EQ10_NUM_BANDS :: nat where
  "EQ10_NUM_BANDS = 10"

definition EQ10_COEFFS_PER_BAND :: nat where
  "EQ10_COEFFS_PER_BAND = 5"

definition EQ10_TOTAL_COEFFS :: nat where
  "EQ10_TOTAL_COEFFS = EQ10_NUM_BANDS * EQ10_COEFFS_PER_BAND"

definition EQ10_STATE_PER_BAND :: nat where
  "EQ10_STATE_PER_BAND = 2"

definition EQ10_TOTAL_STATE :: nat where
  "EQ10_TOTAL_STATE = EQ10_NUM_BANDS * EQ10_STATE_PER_BAND"

subsection \<open>The equaliser (\<^verbatim>\<open>eq10.cpp\<close>)\<close>

text \<open>
  The statics of \<^verbatim>\<open>eq10.cpp\<close>. The CMSIS instance \<^verbatim>\<open>s_eq10_instance\<close> only holds the
  number of stages and pointers to the two arrays below, so it has no field of its own.
\<close>

record EQ10 =
  s_eq10_coeffs :: "real list"
  s_eq10_state :: "real list"
  s_eq10_initialized :: bool

text \<open>The statics before any call: zero-initialised arrays, \<^verbatim>\<open>s_eq10_initialized = false\<close>.\<close>

definition EQ10_statics :: EQ10 where
  "EQ10_statics = \<lparr> s_eq10_coeffs = replicate EQ10_TOTAL_COEFFS 0,
                    s_eq10_state = replicate EQ10_TOTAL_STATE 0,
                    s_eq10_initialized = False \<rparr>"

text \<open>
  \<^verbatim>\<open>EQ10_DesignBiquad\<close> writes five values through its \<^verbatim>\<open>coeffs\<close> pointer; the model
  returns the five values \<open>[b0/a0, b1/a0, b2/a0, a1/a0, a2/a0]\<close> and the caller stores
  them with \<open>store_coeffs\<close> at \<^verbatim>\<open>&s_eq10_coeffs[band * EQ10_COEFFS_PER_BAND]\<close>.
\<close>

definition EQ10_DesignBiquad :: "real \<Rightarrow> real \<Rightarrow> real \<Rightarrow> real \<Rightarrow> real list" where
  "EQ10_DesignBiquad fc gain_dB Q fs =
     (let A = 10 powr (gain_dB / 40);
          w0 = 2 * pi * fc / fs;
          sin_w0 = sin w0;
          cos_w0 = cos w0;
          alpha = sin_w0 / (2 * Q);
          b0 = 1 + alpha * A;
          b1 = - 2 * cos_w0;
          b2 = 1 - alpha * A;
          a0 = 1 + alpha / A;
          a1 = - 2 * cos_w0;
          a2 = 1 - alpha / A
      in [b0 / a0, b1 / a0, b2 / a0, a1 / a0, a2 / a0])"

definition store_coeffs :: "real list \<Rightarrow> nat \<Rightarrow> real list \<Rightarrow> real list" where
  "store_coeffs cs band v =
     (let off = band * EQ10_COEFFS_PER_BAND
      in cs[off := v ! 0, off + 1 := v ! 1, off + 2 := v ! 2, off + 3 := v ! 3, off + 4 := v ! 4])"

definition EQ10_IsValidBand :: "int \<Rightarrow> bool" where
  "EQ10_IsValidBand band \<longleftrightarrow> band \<ge> 0 \<and> band < int EQ10_NUM_BANDS"

definition EQ10_Init :: "EQ10 \<Rightarrow> EQ10" where
  "EQ10_Init e =
     e\<lparr> s_eq10_coeffs :=
          fold (\<lambda>band cs. store_coeffs cs band
                  (EQ10_DesignBiquad (QUICKTUNE_BAND_FREQUENCIES ! band) 0 QUICKTUNE_EQ_Q
                     (real_of_int QUICKTUNE_SAMPLE_RATE)))
               [0..<EQ10_NUM_BANDS] (s_eq10_coeffs e),
        s_eq10_state := replicate EQ10_TOTAL_STATE 0,
        s_eq10_initialized := True \<rparr>"

text \<open>
  The two \<^verbatim>\<open>if\<close> statements that clip a gain to
  \<^verbatim>\<open>[QUICKTUNE_MIN_GAIN_DB, QUICKTUNE_MAX_GAIN_DB]\<close> (in both setters and, twice, in
  \<^verbatim>\<open>ComputeCorrectionGains\<close>) and a quality factor to \<open>[0.1, 20]\<close> (in both setters),
  in the order the source runs them.
\<close>

definition clip_gain :: "real \<Rightarrow> real" where
  "clip_gain gain_dB =
     (let g1 = (if gain_dB > QUICKTUNE_MAX_GAIN_DB then QUICKTUNE_MAX_GAIN_DB else gain_dB)
      in if g1 < QUICKTUNE_MIN_GAIN_DB then QUICKTUNE_MIN_GAIN_DB else g1)"

definition clip_Q :: "real \<Rightarrow> real" where
  "clip_Q Q =
     (let Q1 = (if Q < 0.1 then 0.1 else Q)
      in if Q1 > 20 then 20 else Q1)"

definition EQ10_SetBandGain :: "int \<Rightarrow> real \<Rightarrow> real \<Rightarrow> EQ10 \<Rightarrow> bool \<times> EQ10" where
  "EQ10_SetBandGain band gain_dB Q e =
     (if \<not> s_eq10_initialized e \<or> \<not> EQ10_IsValidBand band then (False, e)
      else
        let gain_dB' = clip_gain gain_dB;
            Q' = clip_Q Q;
            fc = QUICKTUNE_BAND_FREQUENCIES ! nat band
        in (True, e\<lparr> s_eq10_coeffs := store_coeffs (s_eq10_coeffs e) (nat band)
                        (EQ10_DesignBiquad fc gain_dB' Q' (real_of_int QUICKTUNE_SAMPLE_RATE)) \<rparr>))"

definition EQ10_SetAllGains :: "real list option \<Rightarrow> real \<Rightarrow> EQ10 \<Rightarrow> bool \<times> EQ10" where
  "EQ10_SetAllGains gains_dB Q e =
     (case gains_dB of
        None \<Rightarrow> (False, e)
      | Some gains \<Rightarrow>
          if \<not> s_eq10_initialized e then (False, e)
          else
            let Q' = clip_Q Q
            in (True, e\<lparr> s_eq10_coeffs :=
                  fold (\<lambda>band cs.
                          let gain_dB = clip_gain (gains ! band);
                              fc = QUICKTUNE_BAND_FREQUENCIES ! band
                          in store_coeffs cs band
                               (EQ10_DesignBiquad fc gain_dB Q' (real_of_int QUICKTUNE_SAMPLE_RATE)))
                       [0..<EQ10_NUM_BANDS] (s_eq10_coeffs e) \<rparr>))"

text \<open>
  \<^verbatim>\<open>EQ10_GetCoefficients\<close> copies the 50 coefficients into the caller's buffer, when there
  is one; the result is the buffer after the call.
\<close>

definition EQ10_GetCoefficients :: "real list option \<Rightarrow> EQ10 \<Rightarrow> real list option" where
  "EQ10_GetCoefficients coeffs e =
     (case coeffs of
        None \<Rightarrow> None
      | Some buf \<Rightarrow> Some (take EQ10_TOTAL_COEFFS (s_eq10_coeffs e) @ drop EQ10_TOTAL_COEFFS buf))"

subsection \<open>The calibration controller (\<^verbatim>\<open>quicktune.cpp\<close>)\<close>

datatype QuickTuneState =
    QUICKTUNE_STATE_IDLE
  | QUICKTUNE_STATE_MEASURING
  | QUICKTUNE_STATE_COMPUTING
  | QUICKTUNE_STATE_APPLYING
  | QUICKTUNE_STATE_DONE
  | QUICKTUNE_STATE_ERROR

text \<open>
  The statics of \<^verbatim>\<open>quicktune.cpp\<close>, and the equaliser's statics that its calls to
  \<^verbatim>\<open>EQ10_Init\<close> and \<^verbatim>\<open>EQ10_SetAllGains\<close> change.
\<close>

record QuickTune =
  s_state :: QuickTuneState
  s_current_band :: int
  s_sample_counter :: "32 word"
  s_iteration :: int
  s_last_error :: int
  s_osc_y1 :: real
  s_osc_y2 :: real
  s_osc_coeff :: real
  s_tone_amplitude :: real
  s_goertzel_s1 :: real
  s_goertzel_s2 :: real
  s_goertzel_coeff :: real
  s_goertzel_coeffs :: "real list"
  s_measured_levels :: "real list"
  s_correction_gains :: "real list"
  s_cumulative_gains :: "real list"
  s_eq10 :: EQ10

text \<open>The statics before any call: \<^verbatim>\<open>s_state = QUICKTUNE_STATE_IDLE\<close>, everything else zero.\<close>

definition QuickTune_statics :: QuickTune where
  "QuickTune_statics =
     \<lparr> s_state = QUICKTUNE_STATE_IDLE, s_current_band = 0, s_sample_counter = 0,
       s_iteration = 0, s_last_error = 0,
       s_osc_y1 = 0, s_osc_y2 = 0, s_osc_coeff = 0, s_tone_amplitude = 0,
       s_goertzel_s1 = 0, s_goertzel_s2 = 0, s_goertzel_coeff = 0,
       s_goertzel_coeffs = replicate (nat QUICKTUNE_NUM_BANDS) 0,
       s_measured_levels = replicate (nat QUICKTUNE_NUM_BANDS) 0,
       s_correction_gains = replicate (nat QUICKTUNE_NUM_BANDS) 0,
       s_cumulative_gains = replicate (nat QUICKTUNE_NUM_BANDS) 0,
       s_eq10 = EQ10_statics \<rparr>"

definition ToneGenerator_Init :: "real \<Rightarrow> QuickTune \<Rightarrow> QuickTune" where
  "ToneGenerator_Init frequency q =
     (let w0 = 2 * pi * frequency / real_of_int QUICKTUNE_SAMPLE_RATE
      in q\<lparr> s_osc_coeff := 2 * cos w0,
            s_osc_y1 := - sin w0,
            s_osc_y2 := - sin (2 * w0),
            s_tone_amplitude := QUICKTUNE_TONE_AMPLITUDE \<rparr>)"

definition ToneGenerator_GetSample :: "32 word \<Rightarrow> QuickTune \<Rightarrow> real \<times> QuickTune" where
  "ToneGenerator_GetSample sample_index q =
     (let y0 = s_osc_coeff q * s_osc_y1 q - s_osc_y2 q;
          q' = q\<lparr> s_osc_y2 := s_osc_y1 q, s_osc_y1 := y0 \<rparr>;
          amplitude = s_tone_amplitude q';
          amplitude' =
            (if sample_index < word_of_int QUICKTUNE_FADE_SAMPLES
             then amplitude * (real (unat sample_index) / real_of_int QUICKTUNE_FADE_SAMPLES)
             else if sample_index \<ge> word_of_int (QUICKTUNE_TONE_TOTAL_SAMPLES - QUICKTUNE_FADE_SAMPLES)
             then
               let fade_index = (word_of_int QUICKTUNE_TONE_TOTAL_SAMPLES :: 32 word) - sample_index
               in amplitude * (real (unat fade_index) / real_of_int QUICKTUNE_FADE_SAMPLES)
             else amplitude)
      in (y0 * amplitude', q'))"

definition Goertzel_Init :: "real \<Rightarrow> int \<Rightarrow> QuickTune \<Rightarrow> QuickTune" where
  "Goertzel_Init frequency num_samples q =
     (let k = real_of_int num_samples * frequency / real_of_int QUICKTUNE_SAMPLE_RATE + 0.5;
          w = (2 * pi * k) / real_of_int num_samples
      in q\<lparr> s_goertzel_coeff := 2 * cos w,
            s_goertzel_s1 := 0,
            s_goertzel_s2 := 0 \<rparr>)"

definition Goertzel_ProcessSample :: "real \<Rightarrow> QuickTune \<Rightarrow> QuickTune" where
  "Goertzel_ProcessSample sample q =
     (let s0 = s_goertzel_coeff q * s_goertzel_s1 q - s_goertzel_s2 q + sample
      in q\<lparr> s_goertzel_s2 := s_goertzel_s1 q, s_goertzel_s1 := s0 \<rparr>)"

definition Goertzel_GetPower :: "int \<Rightarrow> QuickTune \<Rightarrow> real" where
  "Goertzel_GetPower num_samples q =
     (let power = s_goertzel_s1 q * s_goertzel_s1 q +
                  s_goertzel_s2 q * s_goertzel_s2 q -
                  s_goertzel_coeff q * s_goertzel_s1 q * s_goertzel_s2 q;
          magnitude = sqrt (2 * power) / real_of_int num_samples
      in if magnitude > 1 / 10 ^ 9 then 20 * log 10 magnitude else - 120)"

definition StartBandMeasurement :: "QuickTune \<Rightarrow> QuickTune" where
  "StartBandMeasurement q =
     (if s_current_band q \<ge> QUICKTUNE_NUM_BANDS
      then q\<lparr> s_state := QUICKTUNE_STATE_COMPUTING \<rparr>
      else
        let frequency = QUICKTUNE_BAND_FREQUENCIES ! nat (s_current_band q);
            q1 = ToneGenerator_Init frequency q;
            q2 = Goertzel_Init frequency QUICKTUNE_TONE_ANALYSIS_SAMPLES q1
        in q2\<lparr> s_sample_counter := 0 \<rparr>)"

text \<open>The body of the loop over the bands in \<^verbatim>\<open>ComputeCorrectionGains\<close>.\<close>

definition ComputeCorrectionGains_band :: "nat \<Rightarrow> QuickTune \<Rightarrow> QuickTune" where
  "ComputeCorrectionGains_band band q =
     (let gain = clip_gain (- (s_measured_levels q ! band));
          q1 = q\<lparr> s_correction_gains := (s_correction_gains q)[band := gain] \<rparr>
      in if s_iteration q1 = 0
         then q1\<lparr> s_cumulative_gains := (s_cumulative_gains q1)[band := gain] \<rparr>
         else
           let c = s_cumulative_gains q1 ! band + gain * QUICKTUNE_DAMPING_FACTOR
           in q1\<lparr> s_cumulative_gains := (s_cumulative_gains q1)[band := clip_gain c] \<rparr>)"

definition ComputeCorrectionGains :: "QuickTune \<Rightarrow> QuickTune" where
  "ComputeCorrectionGains q =
     (fold ComputeCorrectionGains_band [0..<nat QUICKTUNE_NUM_BANDS] q)
       \<lparr> s_state := QUICKTUNE_STATE_APPLYING \<rparr>"

definition ApplyCorrectionGains :: "QuickTune \<Rightarrow> QuickTune" where
  "ApplyCorrectionGains q =
     (let q1 = q\<lparr> s_eq10 := snd (EQ10_SetAllGains (Some (s_cumulative_gains q)) QUICKTUNE_EQ_Q (s_eq10 q)) \<rparr>
      in if QUICKTUNE_ENABLE_ITERATION \<and> s_iteration q1 < QUICKTUNE_MAX_ITERATIONS - 1
         then StartBandMeasurement
                (q1\<lparr> s_iteration := s_iteration q1 + 1,
                     s_current_band := 0,
                     s_state := QUICKTUNE_STATE_MEASURING \<rparr>)
         else q1\<lparr> s_state := QUICKTUNE_STATE_DONE \<rparr>)"

definition QuickTune_Init :: "QuickTune \<Rightarrow> QuickTune" where
  "QuickTune_Init q =
     q\<lparr> s_eq10 := EQ10_Init (s_eq10 q),
        s_goertzel_coeffs :=
          fold (\<lambda>band cs.
                  let frequency = QUICKTUNE_BAND_FREQUENCIES ! band;
                      N_f = real_of_int QUICKTUNE_TONE_ANALYSIS_SAMPLES;
                      k = N_f * frequency / real_of_int QUICKTUNE_SAMPLE_RATE + 0.5;
                      w = (2 * pi * k) / N_f
                  in cs[band := 2 * cos w])
               [0..<nat QUICKTUNE_NUM_BANDS] (s_goertzel_coeffs q),
        s_state := QUICKTUNE_STATE_IDLE,
        s_current_band := 0,
        s_sample_counter := 0,
        s_iteration := 0,
        s_last_error := 0,
        s_measured_levels := replicate (nat QUICKTUNE_NUM_BANDS) 0,
        s_correction_gains := replicate (nat QUICKTUNE_NUM_BANDS) 0,
        s_cumulative_gains := replicate (nat QUICKTUNE_NUM_BANDS) 0 \<rparr>"

definition QuickTune_Start :: "QuickTune \<Rightarrow> bool \<times> QuickTune" where
  "QuickTune_Start q =
     (if s_state q \<noteq> QUICKTUNE_STATE_IDLE
      then (False, q\<lparr> s_last_error := 1 \<rparr>)
      else (True, StartBandMeasurement
                    (q\<lparr> s_iteration := 0,
                        s_current_band := 0,
                        s_state := QUICKTUNE_STATE_MEASURING \<rparr>)))"

text \<open>
  The sample loop of the \<^verbatim>\<open>QUICKTUNE_STATE_MEASURING\<close> branch of
  \<^verbatim>\<open>QuickTune_ProcessBlock\<close>, over the microphone samples that are left in the block; it
  returns the statics and the speaker samples written for them. When the tone is complete
  the rest of the block is silence and the loop is left.
\<close>

fun measuring_loop :: "real list \<Rightarrow> QuickTune \<Rightarrow> QuickTune \<times> real list" where
  "measuring_loop [] q = (q, [])"
| "measuring_loop (mic # rest) q =
     (let (out, q1) = ToneGenerator_GetSample (s_sample_counter q) q;
          q2 = (if s_sample_counter q1 \<ge> word_of_int QUICKTUNE_TONE_SETTLING_SAMPLES \<and>
                   s_sample_counter q1 <
                     word_of_int (QUICKTUNE_TONE_SETTLING_SAMPLES + QUICKTUNE_TONE_ANALYSIS_SAMPLES)
                then Goertzel_ProcessSample mic q1 else q1);
          q3 = q2\<lparr> s_sample_counter := s_sample_counter q2 + 1 \<rparr>
      in if s_sample_counter q3 \<ge> word_of_int QUICKTUNE_TONE_TOTAL_SAMPLES
         then
           let level_db = Goertzel_GetPower QUICKTUNE_TONE_ANALYSIS_SAMPLES q3
                            + QUICKTUNE_MEMS_CALIBRATION ! nat (s_current_band q3);
               q4 = q3\<lparr> s_measured_levels :=
                          (s_measured_levels q3)[nat (s_current_band q3) := level_db] \<rparr>;
               q5 = q4\<lparr> s_current_band := s_current_band q4 + 1 \<rparr>
           in (StartBandMeasurement q5, out # replicate (length rest) 0)
         else
           let (q', outs) = measuring_loop rest q3
           in (q', out # outs))"

text \<open>
  \<^verbatim>\<open>QuickTune_ProcessBlock(micInput, speakerOutput, numSamples)\<close>: the two buffers hold
  \<^verbatim>\<open>numSamples\<close> values each, so \<^verbatim>\<open>numSamples\<close> is the length of \<open>micInput\<close>, and the
  result is the statics with the speaker buffer after the call.
\<close>

definition QuickTune_ProcessBlock :: "real list \<Rightarrow> QuickTune \<Rightarrow> QuickTune \<times> real list" where
  "QuickTune_ProcessBlock micInput q =
     (if s_state q = QUICKTUNE_STATE_IDLE \<or> s_state q = QUICKTUNE_STATE_DONE \<or>
         s_state q = QUICKTUNE_STATE_ERROR
      then (q, replicate (length micInput) 0)
      else if s_state q = QUICKTUNE_STATE_MEASURING
      then measuring_loop micInput q
      else if s_state q = QUICKTUNE_STATE_COMPUTING
      then (ComputeCorrectionGains q, replicate (length micInput) 0)
      else (ApplyCorrectionGains q, replicate (length micInput) 0))"

definition QuickTune_GetState :: "QuickTune \<Rightarrow> QuickTuneState" where
  "QuickTune_GetState q = s_state q"

definition QuickTune_GetCorrectionGains :: "QuickTune \<Rightarrow> real list option" where
  "QuickTune_GetCorrectionGains q =
     (if s_state q = QUICKTUNE_STATE_DONE then Some (s_cumulative_gains q) else None)"

definition QuickTune_GetMeasuredLevels :: "QuickTune \<Rightarrow> real list option" where
  "QuickTune_GetMeasuredLevels q =
     (if s_state q = QUICKTUNE_STATE_DONE then Some (s_measured_levels q) else None)"

definition QuickTune_Stop :: "QuickTune \<Rightarrow> QuickTune" where
  "QuickTune_Stop q =
     q\<lparr> s_state := QUICKTUNE_STATE_IDLE,
        s_current_band := 0,
        s_sample_counter := 0,
        s_iteration := 0 \<rparr>"

definition QuickTune_ApplyGains :: "real list option \<Rightarrow> QuickTune \<Rightarrow> QuickTune" where
  "QuickTune_ApplyGains gains q =
     (case gains of
        None \<Rightarrow> q\<lparr> s_last_error := 3 \<rparr>
      | Some g \<Rightarrow>
          q\<lparr> s_cumulative_gains := take (nat QUICKTUNE_NUM_BANDS) g,
             s_eq10 := snd (EQ10_SetAllGains gains QUICKTUNE_EQ_Q (s_eq10 q)),
             s_last_error := 0 \<rparr>)"

definition QuickTune_GetLastError :: "QuickTune \<Rightarrow> int" where
  "QuickTune_GetLastError q = s_last_error q"

text \<open>Feeding a sequence of blocks to \<^verbatim>\<open>QuickTune_ProcessBlock\<close>, one call per block.\<close>

definition process_blocks :: "real list list \<Rightarrow> QuickTune \<Rightarrow> QuickTune" where
  "process_blocks blocks q = foldl (\<lambda>q' mic. fst (QuickTune_ProcessBlock mic q')) q blocks"

subsection \<open>The two halves of the measuring loop's body\<close>

text \<open>
  The body of the sample loop up to and including \<^verbatim>\<open>s_sample_counter++\<close>, and the
  branch taken when the tone is complete. \<open>measuring_loop_Cons\<close> below shows that
  \<open>measuring_loop\<close> is made of exactly these two.
\<close>

definition sample_step :: "real \<Rightarrow> QuickTune \<Rightarrow> QuickTune" where
  "sample_step mic q =
     (let q1 = snd (ToneGenerator_GetSample (s_sample_counter q) q);
          q2 = (if s_sample_counter q1 \<ge> word_of_int QUICKTUNE_TONE_SETTLING_SAMPLES \<and>
                   s_sample_counter q1 <
                     word_of_int (QUICKTUNE_TONE_SETTLING_SAMPLES + QUICKTUNE_TONE_ANALYSIS_SAMPLES)
                then Goertzel_ProcessSample mic q1 else q1)
      in q2\<lparr> s_sample_counter := s_sample_counter q2 + 1 \<rparr>)"

definition tone_end :: "QuickTune \<Rightarrow> QuickTune" where
  "tone_end q3 =
     (let level_db = Goertzel_GetPower QUICKTUNE_TONE_ANALYSIS_SAMPLES q3
                       + QUICKTUNE_MEMS_CALIBRATION ! nat (s_current_band q3);
          q4 = q3\<lparr> s_measured_levels :=
                     (s_measured_levels q3)[nat (s_current_band q3) := level_db] \<rparr>;
          q5 = q4\<lparr> s_current_band := s_current_band q4 + 1 \<rparr>
      in StartBandMeasurement q5)"

section \<open>Properties\<close>

lemmas config_defs =
  QUICKTUNE_SAMPLE_RATE_def QUICKTUNE_NUM_BANDS_def QUICKTUNE_TONE_SETTLING_SAMPLES_def
  QUICKTUNE_TONE_ANALYSIS_SAMPLES_def QUICKTUNE_TONE_TOTAL_SAMPLES_def
  QUICKTUNE_MAX_GAIN_DB_def QUICKTUNE_MIN_GAIN_DB_def QUICKTUNE_EQ_Q_def
  QUICKTUNE_MAX_ITERATIONS_def QUICKTUNE_DAMPING_FACTOR_def QUICKTUNE_ENABLE_ITERATION_def
  QUICKTUNE_TONE_AMPLITUDE_def QUICKTUNE_FADE_SAMPLES_def
  EQ10_NUM_BANDS_def EQ10_COEFFS_PER_BAND_def EQ10_TOTAL_COEFFS_def
  EQ10_STATE_PER_BAND_def EQ10_TOTAL_STATE_def

subsection \<open>Stop\<close>

text \<open>
  Claim C9. \<^verbatim>\<open>QuickTune_Stop\<close>, from any state, sets the state to Idle and the band index,
  the sample counter and the iteration counter to zero; the measured levels, the correction
  gains and the cumulative gains are what they were; and both getters return null after it,
  since they only hand out their array in the Done state.
\<close>

theorem QuickTune_Stop_frame:
  "s_state (QuickTune_Stop q) = QUICKTUNE_STATE_IDLE \<and>
   s_current_band (QuickTune_Stop q) = 0 \<and>
   s_sample_counter (QuickTune_Stop q) = 0 \<and>
   s_iteration (QuickTune_Stop q) = 0 \<and>
   s_measured_levels (QuickTune_Stop q) = s_measured_levels q \<and>
   s_correction_gains (QuickTune_Stop q) = s_correction_gains q \<and>
   s_cumulative_gains (QuickTune_Stop q) = s_cumulative_gains q \<and>
   QuickTune_GetCorrectionGains (QuickTune_Stop q) = None \<and>
   QuickTune_GetMeasuredLevels (QuickTune_Stop q) = None"
  by (simp add: QuickTune_Stop_def QuickTune_GetCorrectionGains_def
      QuickTune_GetMeasuredLevels_def)

subsection \<open>Start\<close>

lemma StartBandMeasurement_first:
  "s_current_band q = 0 \<Longrightarrow>
   StartBandMeasurement q =
     (Goertzel_Init 25 4800 (ToneGenerator_Init 25 q))\<lparr> s_sample_counter := 0 \<rparr>"
  by (simp add: StartBandMeasurement_def config_defs QUICKTUNE_BAND_FREQUENCIES_def Let_def)

text \<open>
  Claim C6. \<^verbatim>\<open>QuickTune_Start\<close> returns true exactly when the state is Idle. From Idle
  it leaves the controller in Measuring with the iteration counter, the band index and the
  in-tone sample counter at zero. From any other state it returns false and only the error
  code changes, to 1 (invalid state).
\<close>

theorem QuickTune_Start_iff_idle:
  "fst (QuickTune_Start q) = (s_state q = QUICKTUNE_STATE_IDLE) \<and>
   (s_state q = QUICKTUNE_STATE_IDLE \<longrightarrow>
      s_state (snd (QuickTune_Start q)) = QUICKTUNE_STATE_MEASURING \<and>
      s_iteration (snd (QuickTune_Start q)) = 0 \<and>
      s_current_band (snd (QuickTune_Start q)) = 0 \<and>
      s_sample_counter (snd (QuickTune_Start q)) = 0) \<and>
   (s_state q \<noteq> QUICKTUNE_STATE_IDLE \<longrightarrow>
      snd (QuickTune_Start q) = q\<lparr> s_last_error := 1 \<rparr>)"
  by (simp add: QuickTune_Start_def StartBandMeasurement_first Goertzel_Init_def
      ToneGenerator_Init_def Let_def)

theorem QuickTune_Start_iff_idle_witness:
  "s_state QuickTune_statics = QUICKTUNE_STATE_IDLE \<and>
   fst (QuickTune_Start QuickTune_statics) \<and>
   s_state (snd (QuickTune_Start QuickTune_statics)) = QUICKTUNE_STATE_MEASURING \<and>
   s_sample_counter (snd (QuickTune_Start QuickTune_statics)) = 0 \<and>
   s_state (QuickTune_statics\<lparr> s_state := QUICKTUNE_STATE_DONE \<rparr>) \<noteq> QUICKTUNE_STATE_IDLE \<and>
   \<not> fst (QuickTune_Start (QuickTune_statics\<lparr> s_state := QUICKTUNE_STATE_DONE \<rparr>)) \<and>
   snd (QuickTune_Start (QuickTune_statics\<lparr> s_state := QUICKTUNE_STATE_DONE \<rparr>))
     = QuickTune_statics\<lparr> s_state := QUICKTUNE_STATE_DONE, s_last_error := 1 \<rparr>"
  using QuickTune_Start_iff_idle [of QuickTune_statics]
    QuickTune_Start_iff_idle [of "QuickTune_statics\<lparr> s_state := QUICKTUNE_STATE_DONE \<rparr>"]
  by (simp add: QuickTune_statics_def)

subsection \<open>The filter designer at 0 dB\<close>



text \<open>For the ten bands at 48 kHz and a positive Q the normalising coefficient is not zero.\<close>

lemma band_a0_nonzero:
  assumes "fc \<in> set QUICKTUNE_BAND_FREQUENCIES" and "0 < Q"
  shows "1 + sin (2 * pi * fc / 48000) / (2 * Q) \<noteq> 0"
proof -
  have "0 < fc" and "fc < 24000"
    using assms(1) by (auto simp: QUICKTUNE_BAND_FREQUENCIES_def)
  then have "0 < 2 * pi * fc / 48000" and "2 * pi * fc / 48000 < pi"
    using pi_gt_zero by simp_all
  then have "0 < sin (2 * pi * fc / 48000)"
    by (rule sin_gt_zero)
  then have "0 < sin (2 * pi * fc / 48000) / (2 * Q)"
    using assms(2) by simp
  then show ?thesis
    by simp
qed




subsection \<open>The detector's bin index\<close>

text \<open>
  Claim C2 does not hold of the code. \<^verbatim>\<open>Goertzel_Init\<close> adds 0.5 to \<open>N f / fs\<close> and
  never truncates the sum, so its \<open>k\<close> is \<open>N f / fs + 0.5\<close> and not the rounded bin index.
  For the 40 Hz band and \<open>N = 4800\<close> the code's coefficient is \<open>2 cos (2\<pi> 4.5 / 4800)\<close>,
  and the one for \<open>k = round (4800 * 40 / 48000) = 4\<close> is another number.
\<close>

theorem Goertzel_Init_bin_not_rounded:
  "s_goertzel_coeff (Goertzel_Init 40 4800 q) = 2 * cos (2 * pi * 4.5 / 4800) \<and>
   s_goertzel_coeff (Goertzel_Init 40 4800 q)
     \<noteq> 2 * cos (2 * pi * real_of_int (round (4800 * 40 / 48000 :: real)) / 4800)"
proof -
  have r: "round (4800 * 40 / 48000 :: real) = 4"
    by (simp add: round_def)
  have "cos (2 * pi * 4.5 / 4800) \<noteq> cos (2 * pi * 4 / 4800)"
  proof
    assume "cos (2 * pi * 4.5 / 4800) = cos (2 * pi * 4 / 4800)"
    then have "2 * pi * 4.5 / 4800 = 2 * pi * 4 / 4800"
      by (rule cos_inj_pi [rotated -1]) (use pi_gt_zero in auto)
    then show False
      using pi_gt_zero by simp
  qed
  then show ?thesis
    by (simp add: Goertzel_Init_def Let_def config_defs r)
qed

subsection \<open>The clipping of gains and quality factors\<close>

lemma clip_gain_range: "- 12 \<le> g \<Longrightarrow> g \<le> 12 \<Longrightarrow> clip_gain g = g"
  by (simp add: clip_gain_def config_defs Let_def)

lemma clip_gain_max_min: "clip_gain g = max (- 12) (min 12 g)"
  by (simp add: clip_gain_def config_defs Let_def max_def min_def)

lemma clip_Q_max_min: "clip_Q Q = max 0.1 (min 20 Q)"
  by (simp add: clip_Q_def Let_def max_def min_def)

subsection \<open>The coefficient array after a batch update\<close>

lemma store_coeffs_length [simp]: "length (store_coeffs cs b v) = length cs"
  by (simp add: store_coeffs_def Let_def)

lemma store_coeffs_append:
  assumes "length xs = b * 5" and "length v = 5" and "5 \<le> length ys"
  shows "store_coeffs (xs @ ys) b v = xs @ v @ drop 5 ys"
proof -
  obtain v0 v1 v2 v3 v4 where v: "v = [v0, v1, v2, v3, v4]"
    using assms(2) by (auto simp: length_Suc_conv eval_nat_numeral)
  obtain y0 y1 y2 y3 y4 rest where ys: "ys = y0 # y1 # y2 # y3 # y4 # rest"
    using assms(3) by (auto simp: Suc_le_length_iff eval_nat_numeral)
  show ?thesis
    using assms(1) by (simp add: store_coeffs_def Let_def config_defs v ys list_update_append)
qed

text \<open>The loop over the bands fills the array with the designed sections, in band order.\<close>

lemma band_loop_concat:
  assumes "\<And>b. length (d b) = 5" and "n * 5 \<le> length cs"
  shows "fold (\<lambda>band cs. store_coeffs cs band (d band)) [0..<n] cs
           = concat (map d [0..<n]) @ drop (n * 5) cs"
  using assms(2)
proof (induction n)
  case 0
  then show ?case by simp
next
  case (Suc n)
  have len: "length (concat (map d [0..<n])) = n * 5"
    by (induction n) (simp_all add: assms(1))
  have "5 \<le> length (drop (n * 5) cs)"
    using Suc.prems by simp
  with Suc len show ?case
    by (simp add: store_coeffs_append assms(1) add.commute)
qed

lemma band_loop_length [simp]:
  "length (fold (\<lambda>band cs. store_coeffs cs band (d band)) bs cs) = length cs"
  by (induction bs arbitrary: cs) simp_all

lemma EQ10_DesignBiquad_length [simp]: "length (EQ10_DesignBiquad fc g Q fs) = 5"
  by (simp add: EQ10_DesignBiquad_def Let_def)

lemma EQ10_SetAllGains_coeffs:
  assumes "s_eq10_initialized e" and "length (s_eq10_coeffs e) = EQ10_TOTAL_COEFFS"
  shows "s_eq10_coeffs (snd (EQ10_SetAllGains (Some gains) Q e)) =
           concat (map (\<lambda>band. EQ10_DesignBiquad (QUICKTUNE_BAND_FREQUENCIES ! band)
                                  (clip_gain (gains ! band)) (clip_Q Q)
                                  (real_of_int QUICKTUNE_SAMPLE_RATE))
                       [0..<EQ10_NUM_BANDS])"
  using assms
  by (simp add: EQ10_SetAllGains_def Let_def band_loop_concat config_defs)

lemma EQ10_Init_ready:
  assumes "length (s_eq10_coeffs e) = EQ10_TOTAL_COEFFS"
  shows "s_eq10_initialized (EQ10_Init e) \<and>
         length (s_eq10_coeffs (EQ10_Init e)) = EQ10_TOTAL_COEFFS"
  using assms by (simp add: EQ10_Init_def config_defs)

lemma upt_10: "[0..<10] = [0, 1, 2, 3, 4, 5, 6, 7, 8, 9 :: nat]"
  by (simp add: upt_rec)

text \<open>
  Claim C8. On an initialised system (the equaliser's flag is set and its coefficient array
  has its 50 entries), after \<^verbatim>\<open>QuickTune_ApplyGains\<close> with the preset
  \<open>[-2.5, -1.8, 0.5, 1.2, -0.3, -1.5, 0.8, 0.2, -0.5, 0.0]\<close>, \<^verbatim>\<open>EQ10_GetCoefficients\<close>
  fills a 50-entry buffer with the designer's five coefficients for each
  (band frequency, preset gain, Q = 2.0) at 48 kHz, in band order.
\<close>

theorem ApplyGains_preset_coefficients:
  assumes "s_eq10_initialized (s_eq10 q)"
    and "length (s_eq10_coeffs (s_eq10 q)) = EQ10_TOTAL_COEFFS"
    and "length buf = EQ10_TOTAL_COEFFS"
  shows "EQ10_GetCoefficients (Some buf)
           (s_eq10 (QuickTune_ApplyGains
              (Some [-2.5, -1.8, 0.5, 1.2, -0.3, -1.5, 0.8, 0.2, -0.5, 0.0]) q))
         = Some (concat (map2 (\<lambda>fc gain. EQ10_DesignBiquad fc gain 2.0 48000)
                   QUICKTUNE_BAND_FREQUENCIES
                   [-2.5, -1.8, 0.5, 1.2, -0.3, -1.5, 0.8, 0.2, -0.5, 0.0]))"
proof -
  let ?g = "[-2.5, -1.8, 0.5, 1.2, -0.3, -1.5, 0.8, 0.2, -0.5, 0.0] :: real list"
  let ?e = "s_eq10 (QuickTune_ApplyGains (Some ?g) q)"
  have e: "?e = snd (EQ10_SetAllGains (Some ?g) QUICKTUNE_EQ_Q (s_eq10 q))"
    by (simp add: QuickTune_ApplyGains_def)
  have c: "s_eq10_coeffs ?e =
     concat (map2 (\<lambda>fc gain. EQ10_DesignBiquad fc gain 2.0 48000)
               QUICKTUNE_BAND_FREQUENCIES ?g)"
    unfolding e EQ10_SetAllGains_coeffs [OF assms(1,2)]
    by (simp add: config_defs upt_10 QUICKTUNE_BAND_FREQUENCIES_def clip_gain_range clip_Q_def)
  have len: "length (s_eq10_coeffs ?e) = EQ10_TOTAL_COEFFS"
    unfolding c by (simp add: QUICKTUNE_BAND_FREQUENCIES_def config_defs)
  show ?thesis
    using assms(3) len c by (simp add: EQ10_GetCoefficients_def)
qed

theorem ApplyGains_preset_coefficients_witness:
  "s_eq10_initialized (s_eq10 (QuickTune_Init QuickTune_statics)) \<and>
   length (s_eq10_coeffs (s_eq10 (QuickTune_Init QuickTune_statics))) = EQ10_TOTAL_COEFFS \<and>
   length (replicate 50 (0::real)) = EQ10_TOTAL_COEFFS \<and>
   EQ10_GetCoefficients (Some (replicate 50 0))
     (s_eq10 (QuickTune_ApplyGains
        (Some [-2.5, -1.8, 0.5, 1.2, -0.3, -1.5, 0.8, 0.2, -0.5, 0.0])
        (QuickTune_Init QuickTune_statics)))
   = Some (concat (map2 (\<lambda>fc gain. EQ10_DesignBiquad fc gain 2.0 48000)
             QUICKTUNE_BAND_FREQUENCIES
             [-2.5, -1.8, 0.5, 1.2, -0.3, -1.5, 0.8, 0.2, -0.5, 0.0]))"
proof -
  have s: "length (s_eq10_coeffs EQ10_statics) = EQ10_TOTAL_COEFFS"
    by (simp add: EQ10_statics_def)
  have i: "s_eq10 (QuickTune_Init QuickTune_statics) = EQ10_Init EQ10_statics"
    by (simp add: QuickTune_Init_def QuickTune_statics_def)
  have h1: "s_eq10_initialized (s_eq10 (QuickTune_Init QuickTune_statics))"
    and h2: "length (s_eq10_coeffs (s_eq10 (QuickTune_Init QuickTune_statics)))
               = EQ10_TOTAL_COEFFS"
    using EQ10_Init_ready [OF s] by (simp_all add: i)
  have h3: "length (replicate 50 (0::real)) = EQ10_TOTAL_COEFFS"
    by (simp add: config_defs)
  show ?thesis
    using h1 h2 h3 ApplyGains_preset_coefficients [OF h1 h2 h3] by simp
qed

subsection \<open>Clamping in the equaliser's setters\<close>

lemma store_coeffs_take_drop:
  assumes "b * 5 + 5 \<le> length cs" and "length v = 5"
  shows "store_coeffs cs b v = take (b * 5) cs @ v @ drop (b * 5 + 5) cs"
proof -
  have "store_coeffs (take (b * 5) cs @ drop (b * 5) cs) b v
          = take (b * 5) cs @ v @ drop 5 (drop (b * 5) cs)"
    using assms by (intro store_coeffs_append) simp_all
  then show ?thesis
    by (simp add: add.commute)
qed

lemma EQ10_SetBandGain_stores:
  assumes "s_eq10_initialized e" and "length (s_eq10_coeffs e) = EQ10_TOTAL_COEFFS"
    and "EQ10_IsValidBand band"
  shows "EQ10_SetBandGain band g Q e =
           (True, e\<lparr> s_eq10_coeffs :=
              take (nat band * 5) (s_eq10_coeffs e)
              @ EQ10_DesignBiquad (QUICKTUNE_BAND_FREQUENCIES ! nat band)
                  (max (- 12) (min 12 g)) (max 0.1 (min 20 Q)) 48000
              @ drop (nat band * 5 + 5) (s_eq10_coeffs e) \<rparr>)"
proof -
  have "nat band < 10"
    using assms(3) by (simp add: EQ10_IsValidBand_def config_defs nat_less_iff)
  then have "nat band * 5 + 5 \<le> length (s_eq10_coeffs e)"
    using assms(2) by (simp add: config_defs)
  then show ?thesis
    using assms(1,3)
    by (simp add: EQ10_SetBandGain_def Let_def store_coeffs_take_drop clip_gain_max_min
        clip_Q_max_min QUICKTUNE_SAMPLE_RATE_def)
qed

lemma EQ10_SetAllGains_stores:
  assumes "s_eq10_initialized e" and "length (s_eq10_coeffs e) = EQ10_TOTAL_COEFFS"
  shows "EQ10_SetAllGains (Some gains) Q e =
           (True, e\<lparr> s_eq10_coeffs :=
              concat (map (\<lambda>b. EQ10_DesignBiquad (QUICKTUNE_BAND_FREQUENCIES ! b)
                                  (max (- 12) (min 12 (gains ! b))) (max 0.1 (min 20 Q)) 48000)
                          [0..<10]) \<rparr>)"
  using assms
  by (simp add: EQ10_SetAllGains_def Let_def band_loop_concat config_defs clip_gain_max_min
      clip_Q_max_min)

text \<open>
  Claim C7. On an initialised engine (the flag is set and the coefficient array has its 50
  entries) and for every valid band index, no gain and no Q is rejected.
  \<^verbatim>\<open>EQ10_SetBandGain\<close> returns true and replaces the band's five coefficients by the
  design for the gain clamped to \<open>[-12, 12]\<close> dB and the Q clamped to \<open>[0.1, 20]\<close>, leaving
  every other coefficient and static as it was; \<^verbatim>\<open>EQ10_SetAllGains\<close> returns true and
  replaces all 50 coefficients by the designs for the clamped gains and the clamped Q, in
  band order. So a request of 50 dB gives the coefficients of 12 dB (and \<open>- 50\<close> dB those of
  \<open>- 12\<close> dB), and a request of Q = 50 those of Q = 20 (and Q = 0.01 those of Q = 0.1),
  in both setters.
\<close>

theorem setters_clamp_gain_and_Q:
  assumes "s_eq10_initialized e" and "length (s_eq10_coeffs e) = EQ10_TOTAL_COEFFS"
    and "EQ10_IsValidBand band"
  shows "EQ10_SetBandGain band g Q e =
           (True, e\<lparr> s_eq10_coeffs :=
              take (nat band * 5) (s_eq10_coeffs e)
              @ EQ10_DesignBiquad (QUICKTUNE_BAND_FREQUENCIES ! nat band)
                  (max (- 12) (min 12 g)) (max 0.1 (min 20 Q)) 48000
              @ drop (nat band * 5 + 5) (s_eq10_coeffs e) \<rparr>) \<and>
         EQ10_SetAllGains (Some gains) Q e =
           (True, e\<lparr> s_eq10_coeffs :=
              concat (map (\<lambda>b. EQ10_DesignBiquad (QUICKTUNE_BAND_FREQUENCIES ! b)
                                  (max (- 12) (min 12 (gains ! b))) (max 0.1 (min 20 Q)) 48000)
                          [0..<10]) \<rparr>) \<and>
         EQ10_SetBandGain band 50 Q e = EQ10_SetBandGain band 12 Q e \<and>
         EQ10_SetBandGain band (- 50) Q e = EQ10_SetBandGain band (- 12) Q e \<and>
         EQ10_SetBandGain band g 50 e = EQ10_SetBandGain band g 20 e \<and>
         EQ10_SetBandGain band g 0.01 e = EQ10_SetBandGain band g 0.1 e \<and>
         EQ10_SetAllGains (Some (replicate 10 50)) Q e
           = EQ10_SetAllGains (Some (replicate 10 12)) Q e \<and>
         EQ10_SetAllGains (Some (gains[i := 50])) Q e
           = EQ10_SetAllGains (Some (gains[i := 12])) Q e \<and>
         EQ10_SetAllGains (Some gains) 50 e = EQ10_SetAllGains (Some gains) 20 e"
proof -
  note b = EQ10_SetBandGain_stores [OF assms]
  note a = EQ10_SetAllGains_stores [OF assms(1,2)]
  have u: "max (- 12) (min 12 (gains[i := 50] ! b)) = max (- 12) (min 12 (gains[i := 12] ! b))"
    for b
    by (cases "i < length gains") (simp_all add: nth_list_update list_update_beyond)
  have r: "EQ10_SetAllGains (Some (replicate 10 50)) Q e
             = EQ10_SetAllGains (Some (replicate 10 12)) Q e"
    by (simp add: a upt_10)
  show ?thesis
    using r by (simp add: b a u)
qed

theorem setters_clamp_gain_and_Q_witness:
  "s_eq10_initialized (EQ10_Init EQ10_statics) \<and>
   length (s_eq10_coeffs (EQ10_Init EQ10_statics)) = EQ10_TOTAL_COEFFS \<and>
   EQ10_IsValidBand 3 \<and>
   fst (EQ10_SetBandGain 3 50 50 (EQ10_Init EQ10_statics)) \<and>
   take 5 (drop 15 (s_eq10_coeffs (snd (EQ10_SetBandGain 3 50 50 (EQ10_Init EQ10_statics)))))
     = EQ10_DesignBiquad 100 12 20 48000 \<and>
   take 5 (drop 15 (s_eq10_coeffs (snd (EQ10_SetBandGain 3 (- 50) 0.01 (EQ10_Init EQ10_statics)))))
     = EQ10_DesignBiquad 100 (- 12) 0.1 48000"
proof -
  let ?e = "EQ10_Init EQ10_statics"
  have s: "length (s_eq10_coeffs EQ10_statics) = EQ10_TOTAL_COEFFS"
    by (simp add: EQ10_statics_def)
  have h1: "s_eq10_initialized ?e" and h2: "length (s_eq10_coeffs ?e) = EQ10_TOTAL_COEFFS"
    using EQ10_Init_ready [OF s] by simp_all
  have h3: "EQ10_IsValidBand 3"
    by (simp add: EQ10_IsValidBand_def config_defs)
  have l: "length (s_eq10_coeffs ?e) = 50"
    using h2 by (simp add: config_defs)
  have f: "QUICKTUNE_BAND_FREQUENCIES ! nat 3 = 100"
    by (simp add: QUICKTUNE_BAND_FREQUENCIES_def)
  have a: "EQ10_SetBandGain 3 50 50 ?e =
      (True, ?e\<lparr> s_eq10_coeffs := take 15 (s_eq10_coeffs ?e)
          @ EQ10_DesignBiquad 100 12 20 48000 @ drop 20 (s_eq10_coeffs ?e) \<rparr>)"
    using setters_clamp_gain_and_Q [OF h1 h2 h3, where g = 50 and Q = 50 and gains = "[]" and i = 0] f by simp
  have b: "EQ10_SetBandGain 3 (- 50) 0.01 ?e =
      (True, ?e\<lparr> s_eq10_coeffs := take 15 (s_eq10_coeffs ?e)
          @ EQ10_DesignBiquad 100 (- 12) 0.1 48000 @ drop 20 (s_eq10_coeffs ?e) \<rparr>)"
    using setters_clamp_gain_and_Q [OF h1 h2 h3, where g = "- 50" and Q = "0.01" and gains = "[]" and i = 0] f by simp
  show ?thesis
    using h1 h2 h3 l a b by simp
qed

subsection \<open>Applying a preset leaves the state machine alone\<close>

text \<open>
  Claim C10. \<^verbatim>\<open>QuickTune_ApplyGains\<close> with a non-null array does not change the
  controller's state. It copies the first ten values into the cumulative gains (all of a
  ten-entry array), hands the array to \<^verbatim>\<open>EQ10_SetAllGains\<close> with the fixed Q, and clears
  the error code. A controller in Idle is still in Idle, so \<^verbatim>\<open>QuickTune_GetCorrectionGains\<close>
  still returns null.
\<close>

theorem QuickTune_ApplyGains_frame:
  "s_state (QuickTune_ApplyGains (Some g) q) = s_state q \<and>
   s_cumulative_gains (QuickTune_ApplyGains (Some g) q) = take 10 g \<and>
   (length g = 10 \<longrightarrow> s_cumulative_gains (QuickTune_ApplyGains (Some g) q) = g) \<and>
   s_eq10 (QuickTune_ApplyGains (Some g) q)
     = snd (EQ10_SetAllGains (Some g) QUICKTUNE_EQ_Q (s_eq10 q)) \<and>
   s_last_error (QuickTune_ApplyGains (Some g) q) = 0 \<and>
   (s_state q = QUICKTUNE_STATE_IDLE \<longrightarrow>
      s_state (QuickTune_ApplyGains (Some g) q) = QUICKTUNE_STATE_IDLE \<and>
      QuickTune_GetCorrectionGains (QuickTune_ApplyGains (Some g) q) = None)"
  by (simp add: QuickTune_ApplyGains_def QuickTune_GetCorrectionGains_def config_defs)

theorem QuickTune_ApplyGains_frame_witness:
  "length [-2.5, -1.8, 0.5, 1.2, -0.3, -1.5, 0.8, 0.2, -0.5, 0.0 :: real] = 10 \<and>
   s_state QuickTune_statics = QUICKTUNE_STATE_IDLE \<and>
   s_cumulative_gains (QuickTune_ApplyGains
       (Some [-2.5, -1.8, 0.5, 1.2, -0.3, -1.5, 0.8, 0.2, -0.5, 0.0]) QuickTune_statics)
     = [-2.5, -1.8, 0.5, 1.2, -0.3, -1.5, 0.8, 0.2, -0.5, 0.0] \<and>
   s_state (QuickTune_ApplyGains
       (Some [-2.5, -1.8, 0.5, 1.2, -0.3, -1.5, 0.8, 0.2, -0.5, 0.0]) QuickTune_statics)
     = QUICKTUNE_STATE_IDLE \<and>
   QuickTune_GetCorrectionGains (QuickTune_ApplyGains
       (Some [-2.5, -1.8, 0.5, 1.2, -0.3, -1.5, 0.8, 0.2, -0.5, 0.0]) QuickTune_statics)
     = None"
  using QuickTune_ApplyGains_frame
    [of "[-2.5, -1.8, 0.5, 1.2, -0.3, -1.5, 0.8, 0.2, -0.5, 0.0]" QuickTune_statics]
  by (simp add: QuickTune_statics_def)

subsection \<open>Block accounting of a measurement pass\<close>

lemma counter_suc: "unat (c :: 32 word) < 14400 \<Longrightarrow> unat (c + 1) = unat c + 1"
  by (simp add: unat_word_ariths)

lemma tone_total_le: "((14400 :: 32 word) \<le> c) = (14400 \<le> unat c)"
  by (simp add: word_le_nat_alt)

lemma measuring_loop_Cons:
  "measuring_loop (mic # rest) q =
     (if 14400 \<le> unat (s_sample_counter (sample_step mic q))
      then (tone_end (sample_step mic q),
            fst (ToneGenerator_GetSample (s_sample_counter q) q) # replicate (length rest) 0)
      else (fst (measuring_loop rest (sample_step mic q)),
            fst (ToneGenerator_GetSample (s_sample_counter q) q)
              # snd (measuring_loop rest (sample_step mic q))))"
  by (simp add: sample_step_def tone_end_def split_def Let_def tone_total_le [symmetric]
      QUICKTUNE_TONE_TOTAL_SAMPLES_def)

lemma sample_step_fields:
  "s_state (sample_step mic q) = s_state q"
  "s_current_band (sample_step mic q) = s_current_band q"
  "s_sample_counter (sample_step mic q) = s_sample_counter q + 1"
  "s_iteration (sample_step mic q) = s_iteration q"
  "s_measured_levels (sample_step mic q) = s_measured_levels q"
  "s_cumulative_gains (sample_step mic q) = s_cumulative_gains q"
  by (simp_all add: sample_step_def ToneGenerator_GetSample_def Goertzel_ProcessSample_def Let_def)

lemma sample_step_silent:
  "s_goertzel_s1 q = 0 \<Longrightarrow> s_goertzel_s2 q = 0 \<Longrightarrow>
   s_goertzel_s1 (sample_step 0 q) = 0 \<and> s_goertzel_s2 (sample_step 0 q) = 0"
  by (simp add: sample_step_def ToneGenerator_GetSample_def Goertzel_ProcessSample_def Let_def)

lemma StartBandMeasurement_fields:
  "s_state (StartBandMeasurement q) =
     (if s_current_band q \<ge> 10 then QUICKTUNE_STATE_COMPUTING else s_state q)"
  "s_current_band (StartBandMeasurement q) = s_current_band q"
  "s_current_band q < 10 \<Longrightarrow> s_sample_counter (StartBandMeasurement q) = 0"
  "s_iteration (StartBandMeasurement q) = s_iteration q"
  "s_measured_levels (StartBandMeasurement q) = s_measured_levels q"
  "s_cumulative_gains (StartBandMeasurement q) = s_cumulative_gains q"
  "s_goertzel_s1 q = 0 \<Longrightarrow> s_goertzel_s1 (StartBandMeasurement q) = 0"
  "s_goertzel_s2 q = 0 \<Longrightarrow> s_goertzel_s2 (StartBandMeasurement q) = 0"
  "s_current_band q < 10 \<Longrightarrow> s_goertzel_s1 (StartBandMeasurement q) = 0"
  "s_current_band q < 10 \<Longrightarrow> s_goertzel_s2 (StartBandMeasurement q) = 0"
  by (simp_all add: StartBandMeasurement_def ToneGenerator_Init_def Goertzel_Init_def Let_def
      QUICKTUNE_NUM_BANDS_def)

lemma tone_end_fields:
  "s_state (tone_end q) =
     (if s_current_band q + 1 \<ge> 10 then QUICKTUNE_STATE_COMPUTING else s_state q)"
  "s_current_band (tone_end q) = s_current_band q + 1"
  "s_current_band q + 1 < 10 \<Longrightarrow> s_sample_counter (tone_end q) = 0"
  "s_iteration (tone_end q) = s_iteration q"
  "s_cumulative_gains (tone_end q) = s_cumulative_gains q"
  "s_measured_levels (tone_end q) =
     (s_measured_levels q)[nat (s_current_band q) :=
        Goertzel_GetPower 4800 q + QUICKTUNE_MEMS_CALIBRATION ! nat (s_current_band q)]"
  "s_goertzel_s1 q = 0 \<Longrightarrow> s_goertzel_s1 (tone_end q) = 0"
  "s_goertzel_s2 q = 0 \<Longrightarrow> s_goertzel_s2 (tone_end q) = 0"
  by (simp_all add: tone_end_def StartBandMeasurement_fields Let_def
      QUICKTUNE_TONE_ANALYSIS_SAMPLES_def)

lemma Goertzel_GetPower_silent:
  "s_goertzel_s1 q = 0 \<Longrightarrow> s_goertzel_s2 q = 0 \<Longrightarrow> Goertzel_GetPower n q = - 120"
  by (simp add: Goertzel_GetPower_def)

declare measuring_loop.simps(2) [simp del]

text \<open>
  A run of the sample loop that stays inside the tone only advances the sample counter; a run
  that reaches the 14400th sample of the tone stores the level, moves to the next band and
  either restarts the counter or, after the tenth band, enters Computing.
\<close>

lemma measuring_loop_within:
  assumes "unat (s_sample_counter q) + length xs < 14400"
  shows "s_state (fst (measuring_loop xs q)) = s_state q \<and>
         s_current_band (fst (measuring_loop xs q)) = s_current_band q \<and>
         unat (s_sample_counter (fst (measuring_loop xs q))) = unat (s_sample_counter q) + length xs \<and>
         s_iteration (fst (measuring_loop xs q)) = s_iteration q \<and>
         s_measured_levels (fst (measuring_loop xs q)) = s_measured_levels q \<and>
         s_cumulative_gains (fst (measuring_loop xs q)) = s_cumulative_gains q"
  using assms
proof (induction xs arbitrary: q)
  case Nil
  then show ?case by simp
next
  case (Cons mic rest)
  have c: "unat (s_sample_counter q + 1) = unat (s_sample_counter q) + 1"
    using Cons.prems by (simp add: counter_suc)
  then have "unat (s_sample_counter (sample_step mic q)) + length rest < 14400"
    using Cons.prems by (simp add: sample_step_fields)
  from Cons.IH [OF this] show ?case
    using Cons.prems by (simp add: measuring_loop_Cons c sample_step_fields)
qed

lemma measuring_loop_tone_end:
  assumes "unat (s_sample_counter q) < 14400"
    and "14400 \<le> unat (s_sample_counter q) + length xs"
  shows "s_state (fst (measuring_loop xs q)) =
           (if s_current_band q + 1 \<ge> 10 then QUICKTUNE_STATE_COMPUTING else s_state q) \<and>
         s_current_band (fst (measuring_loop xs q)) = s_current_band q + 1 \<and>
         (s_current_band q + 1 < 10 \<longrightarrow> s_sample_counter (fst (measuring_loop xs q)) = 0) \<and>
         s_iteration (fst (measuring_loop xs q)) = s_iteration q \<and>
         s_cumulative_gains (fst (measuring_loop xs q)) = s_cumulative_gains q"
  using assms
proof (induction xs arbitrary: q)
  case Nil
  then show ?case by simp
next
  case (Cons mic rest)
  have c: "unat (s_sample_counter q + 1) = unat (s_sample_counter q) + 1"
    using Cons.prems by (simp add: counter_suc)
  show ?case
  proof (cases "14400 \<le> unat (s_sample_counter (sample_step mic q))")
    case True
    then show ?thesis
      by (simp add: measuring_loop_Cons tone_end_fields sample_step_fields)
  next
    case False
    then have "unat (s_sample_counter (sample_step mic q)) < 14400"
      and "14400 \<le> unat (s_sample_counter (sample_step mic q)) + length rest"
      using Cons.prems c by (simp_all add: sample_step_fields)
    from Cons.IH [OF this] False show ?thesis
      by (simp add: measuring_loop_Cons sample_step_fields c)
  qed
qed

lemma measuring_loop_silent:
  assumes "s_goertzel_s1 q = 0" and "s_goertzel_s2 q = 0" and "\<forall>x\<in>set xs. x = 0"
  shows "s_goertzel_s1 (fst (measuring_loop xs q)) = 0 \<and>
         s_goertzel_s2 (fst (measuring_loop xs q)) = 0"
  using assms
proof (induction xs arbitrary: q)
  case Nil
  then show ?case by simp
next
  case (Cons mic rest)
  then have z: "s_goertzel_s1 (sample_step mic q) = 0 \<and> s_goertzel_s2 (sample_step mic q) = 0"
    using sample_step_silent [of q] by simp
  with Cons show ?case
    by (simp add: measuring_loop_Cons tone_end_fields)
qed

lemma measuring_loop_silent_level:
  assumes "unat (s_sample_counter q) < 14400"
    and "14400 \<le> unat (s_sample_counter q) + length xs"
    and "s_goertzel_s1 q = 0" and "s_goertzel_s2 q = 0" and "\<forall>x\<in>set xs. x = 0"
  shows "s_measured_levels (fst (measuring_loop xs q)) =
           (s_measured_levels q)[nat (s_current_band q) :=
              - 120 + QUICKTUNE_MEMS_CALIBRATION ! nat (s_current_band q)]"
  using assms
proof (induction xs arbitrary: q)
  case Nil
  then show ?case by simp
next
  case (Cons mic rest)
  have c: "unat (s_sample_counter q + 1) = unat (s_sample_counter q) + 1"
    using Cons.prems by (simp add: counter_suc)
  have z: "s_goertzel_s1 (sample_step mic q) = 0" "s_goertzel_s2 (sample_step mic q) = 0"
    using sample_step_silent [of q] Cons.prems by simp_all
  show ?case
  proof (cases "14400 \<le> unat (s_sample_counter (sample_step mic q))")
    case True
    then show ?thesis
      by (simp add: measuring_loop_Cons tone_end_fields sample_step_fields
          Goertzel_GetPower_silent z)
  next
    case False
    then have "unat (s_sample_counter (sample_step mic q)) < 14400"
      and "14400 \<le> unat (s_sample_counter (sample_step mic q)) + length rest"
      using Cons.prems c by (simp_all add: sample_step_fields)
    from Cons.IH [OF this z] Cons.prems False show ?thesis
      by (simp add: measuring_loop_Cons sample_step_fields c)
  qed
qed

lemma process_blocks_Nil [simp]: "process_blocks [] q = q"
  by (simp add: process_blocks_def)

lemma process_blocks_append:
  "process_blocks (xs @ ys) q = process_blocks ys (process_blocks xs q)"
  by (simp add: process_blocks_def)

lemma process_blocks_single [simp]:
  "process_blocks [b] q = fst (QuickTune_ProcessBlock b q)"
  by (simp add: process_blocks_def)

lemma process_blocks_Cons:
  "process_blocks (b # bs) q = process_blocks bs (fst (QuickTune_ProcessBlock b q))"
  by (simp add: process_blocks_def)

lemma ProcessBlock_measuring:
  "s_state q = QUICKTUNE_STATE_MEASURING \<Longrightarrow>
   QuickTune_ProcessBlock mic q = measuring_loop mic q"
  by (simp add: QuickTune_ProcessBlock_def)

lemma ProcessBlock_computing:
  "s_state q = QUICKTUNE_STATE_COMPUTING \<Longrightarrow>
   fst (QuickTune_ProcessBlock mic q) = ComputeCorrectionGains q"
  by (simp add: QuickTune_ProcessBlock_def)

lemma ProcessBlock_applying:
  "s_state q = QUICKTUNE_STATE_APPLYING \<Longrightarrow>
   fst (QuickTune_ProcessBlock mic q) = ApplyCorrectionGains q"
  by (simp add: QuickTune_ProcessBlock_def)



lemma block_count_within:
  fixes k :: nat
  assumes "k < 4500" and "k mod 450 < 449"
  shows "Suc k div 450 = k div 450" and "Suc k mod 450 = k mod 450 + 1" and "Suc k < 4500"
proof -
  show m: "Suc k mod 450 = k mod 450 + 1"
    using assms(2) by (simp add: mod_Suc)
  show "Suc k div 450 = k div 450"
    using m by (simp add: div_Suc)
  show "Suc k < 4500"
  proof (rule ccontr)
    assume "\<not> Suc k < 4500"
    then have "k = 4499" using assms(1) by linarith
    then show False using assms(2) by simp
  qed
qed

lemma block_count_tone_end:
  fixes k :: nat
  assumes "k < 4500" and "\<not> k mod 450 < 449"
  shows "k mod 450 = 449" and "Suc k div 450 = k div 450 + 1" and "Suc k mod 450 = 0"
    and "(Suc k < 4500) = (k div 450 + 1 < 10)"
proof -
  have "k mod 450 < 450" by simp
  then show m: "k mod 450 = 449" using assms(2) by linarith
  show m': "Suc k mod 450 = 0"
    using m by (simp add: mod_Suc)
  show "Suc k div 450 = k div 450 + 1"
    using m' by (simp add: div_Suc)
  have "k = 450 * (k div 450) + 449"
    using m div_mult_mod_eq [of k 450] by simp
  then show "(Suc k < 4500) = (k div 450 + 1 < 10)"
    by linarith
qed


text \<open>One block of 32 samples in the Measuring state, \<open>j\<close> blocks into the tone.\<close>

lemma block_within_tone:
  assumes "s_state q = QUICKTUNE_STATE_MEASURING"
    and "unat (s_sample_counter q) = 32 * j" and "j < 449" and "length mic = 32"
  shows "s_state (fst (QuickTune_ProcessBlock mic q)) = QUICKTUNE_STATE_MEASURING \<and>
         s_current_band (fst (QuickTune_ProcessBlock mic q)) = s_current_band q \<and>
         unat (s_sample_counter (fst (QuickTune_ProcessBlock mic q))) = 32 * (j + 1) \<and>
         s_iteration (fst (QuickTune_ProcessBlock mic q)) = s_iteration q \<and>
         s_measured_levels (fst (QuickTune_ProcessBlock mic q)) = s_measured_levels q \<and>
         s_cumulative_gains (fst (QuickTune_ProcessBlock mic q)) = s_cumulative_gains q"
proof -
  have "unat (s_sample_counter q) + length mic < 14400"
    using assms by simp
  from measuring_loop_within [OF this] show ?thesis
    using assms by (simp add: ProcessBlock_measuring)
qed

lemma block_ends_tone:
  assumes "s_state q = QUICKTUNE_STATE_MEASURING"
    and "unat (s_sample_counter q) = 32 * 449" and "length mic = 32"
  shows "s_state (fst (QuickTune_ProcessBlock mic q)) =
           (if s_current_band q + 1 \<ge> 10 then QUICKTUNE_STATE_COMPUTING
            else QUICKTUNE_STATE_MEASURING) \<and>
         s_current_band (fst (QuickTune_ProcessBlock mic q)) = s_current_band q + 1 \<and>
         (s_current_band q + 1 < 10 \<longrightarrow>
            s_sample_counter (fst (QuickTune_ProcessBlock mic q)) = 0) \<and>
         s_iteration (fst (QuickTune_ProcessBlock mic q)) = s_iteration q \<and>
         s_cumulative_gains (fst (QuickTune_ProcessBlock mic q)) = s_cumulative_gains q"
proof -
  have "unat (s_sample_counter q) < 14400"
    and "14400 \<le> unat (s_sample_counter q) + length mic"
    using assms by simp_all
  from measuring_loop_tone_end [OF this] show ?thesis
    using assms by (simp add: ProcessBlock_measuring)
qed

text \<open>
  The position of the controller after \<open>k \<le> 4500\<close> blocks of a pass: band \<open>k div 450\<close>,
  sample \<open>32 * (k mod 450)\<close> of its tone.
\<close>

lemma sweep_progress:
  assumes "s_state q = QUICKTUNE_STATE_MEASURING"
    and "s_current_band q = 0" and "s_sample_counter q = 0"
    and "\<forall>b\<in>set bs. length b = 32" and "length bs \<le> 4500"
  shows "s_iteration (process_blocks bs q) = s_iteration q \<and>
         s_cumulative_gains (process_blocks bs q) = s_cumulative_gains q \<and>
         s_current_band (process_blocks bs q) = int (length bs div 450) \<and>
         (length bs < 4500 \<longrightarrow>
            s_state (process_blocks bs q) = QUICKTUNE_STATE_MEASURING \<and>
            unat (s_sample_counter (process_blocks bs q)) = 32 * (length bs mod 450)) \<and>
         (length bs = 4500 \<longrightarrow> s_state (process_blocks bs q) = QUICKTUNE_STATE_COMPUTING)"
  using assms(4,5)
proof (induction bs rule: rev_induct)
  case Nil
  then show ?case using assms(1-3) by simp
next
  case (snoc b bs)
  let ?k = "length bs"
  let ?p = "process_blocks bs q"
  have k: "?k < 4500" and b: "length b = 32"
    using snoc.prems by simp_all
  have ih: "s_iteration ?p = s_iteration q" "s_cumulative_gains ?p = s_cumulative_gains q"
    "s_current_band ?p = int (?k div 450)" "s_state ?p = QUICKTUNE_STATE_MEASURING"
    "unat (s_sample_counter ?p) = 32 * (?k mod 450)"
    using snoc.IH snoc.prems k by simp_all
  have run: "process_blocks (bs @ [b]) q = fst (QuickTune_ProcessBlock b ?p)"
    by (simp add: process_blocks_append)
  show ?case
  proof (cases "?k mod 450 < 449")
    case True
    note a = block_count_within [OF k True]
    from block_within_tone [OF ih(4) ih(5) True b] a(3) show ?thesis
      by (simp add: run ih a(1,2))
  next
    case False
    note a = block_count_tone_end [OF k False]
    have c: "unat (s_sample_counter ?p) = 32 * 449"
      using ih(5) a(1) by simp
    from block_ends_tone [OF ih(4) c b] show ?thesis
      using a(4) by (simp add: run ih a(2,3))
  qed
qed

lemma ComputeCorrectionGains_band_fields:
  "s_state (ComputeCorrectionGains_band b q) = s_state q"
  "s_iteration (ComputeCorrectionGains_band b q) = s_iteration q"
  "s_current_band (ComputeCorrectionGains_band b q) = s_current_band q"
  "s_measured_levels (ComputeCorrectionGains_band b q) = s_measured_levels q"
  "s_correction_gains (ComputeCorrectionGains_band b q) =
     (s_correction_gains q)[b := clip_gain (- (s_measured_levels q ! b))]"
  "s_cumulative_gains (ComputeCorrectionGains_band b q) =
     (s_cumulative_gains q)[b :=
        if s_iteration q = 0 then clip_gain (- (s_measured_levels q ! b))
        else clip_gain (s_cumulative_gains q ! b
                          + clip_gain (- (s_measured_levels q ! b)) * QUICKTUNE_DAMPING_FACTOR)]"
  by (simp_all add: ComputeCorrectionGains_band_def Let_def)

lemma compute_loop_fields:
  "s_iteration (fold ComputeCorrectionGains_band bs q) = s_iteration q \<and>
   s_measured_levels (fold ComputeCorrectionGains_band bs q) = s_measured_levels q \<and>
   length (s_correction_gains (fold ComputeCorrectionGains_band bs q))
     = length (s_correction_gains q) \<and>
   length (s_cumulative_gains (fold ComputeCorrectionGains_band bs q))
     = length (s_cumulative_gains q)"
  by (induction bs arbitrary: q) (simp_all add: ComputeCorrectionGains_band_fields)

lemma compute_loop_correction:
  assumes "b < length (s_correction_gains q)"
  shows "s_correction_gains (fold ComputeCorrectionGains_band [0..<n] q) ! b =
           (if b < n then clip_gain (- (s_measured_levels q ! b)) else s_correction_gains q ! b)"
proof (induction n)
  case 0
  then show ?case by simp
next
  case (Suc n)
  then show ?case
    using assms
    by (auto simp: ComputeCorrectionGains_band_fields compute_loop_fields nth_list_update
        less_Suc_eq)
qed

lemma compute_loop_cumulative:
  assumes "b < length (s_cumulative_gains q)"
  shows "s_cumulative_gains (fold ComputeCorrectionGains_band [0..<n] q) ! b =
           (if b < n
            then (if s_iteration q = 0 then clip_gain (- (s_measured_levels q ! b))
                  else clip_gain (s_cumulative_gains q ! b
                         + clip_gain (- (s_measured_levels q ! b)) * QUICKTUNE_DAMPING_FACTOR))
            else s_cumulative_gains q ! b)"
proof (induction n)
  case 0
  then show ?case by simp
next
  case (Suc n)
  then show ?case
    using assms
    by (auto simp: ComputeCorrectionGains_band_fields compute_loop_fields nth_list_update
        less_Suc_eq)
qed

lemma ComputeCorrectionGains_fields:
  "s_state (ComputeCorrectionGains q) = QUICKTUNE_STATE_APPLYING"
  "s_iteration (ComputeCorrectionGains q) = s_iteration q"
  "s_measured_levels (ComputeCorrectionGains q) = s_measured_levels q"
  "length (s_correction_gains (ComputeCorrectionGains q)) = length (s_correction_gains q)"
  "length (s_cumulative_gains (ComputeCorrectionGains q)) = length (s_cumulative_gains q)"
  by (simp_all add: ComputeCorrectionGains_def compute_loop_fields)

lemma ComputeCorrectionGains_gains:
  assumes "b < 10"
  shows "b < length (s_correction_gains q) \<Longrightarrow>
         s_correction_gains (ComputeCorrectionGains q) ! b = clip_gain (- (s_measured_levels q ! b))"
    and "b < length (s_cumulative_gains q) \<Longrightarrow>
         s_cumulative_gains (ComputeCorrectionGains q) ! b =
           (if s_iteration q = 0 then clip_gain (- (s_measured_levels q ! b))
            else clip_gain (s_cumulative_gains q ! b
                   + clip_gain (- (s_measured_levels q ! b)) * QUICKTUNE_DAMPING_FACTOR))"
  using assms compute_loop_correction [of b q 10] compute_loop_cumulative [of b q 10]
  by (simp_all add: ComputeCorrectionGains_def QUICKTUNE_NUM_BANDS_def)

lemma ApplyCorrectionGains_fields:
  "s_state (ApplyCorrectionGains q) =
     (if s_iteration q < 2 then QUICKTUNE_STATE_MEASURING else QUICKTUNE_STATE_DONE)"
  "s_iteration (ApplyCorrectionGains q) = (if s_iteration q < 2 then s_iteration q + 1 else s_iteration q)"
  "s_iteration q < 2 \<Longrightarrow> s_current_band (ApplyCorrectionGains q) = 0"
  "s_iteration q < 2 \<Longrightarrow> s_sample_counter (ApplyCorrectionGains q) = 0"
  "s_iteration q < 2 \<Longrightarrow> s_goertzel_s1 (ApplyCorrectionGains q) = 0"
  "s_iteration q < 2 \<Longrightarrow> s_goertzel_s2 (ApplyCorrectionGains q) = 0"
  "s_cumulative_gains (ApplyCorrectionGains q) = s_cumulative_gains q"
  "s_measured_levels (ApplyCorrectionGains q) = s_measured_levels q"
  by (simp_all add: ApplyCorrectionGains_def Let_def StartBandMeasurement_fields
      QUICKTUNE_ENABLE_ITERATION_def QUICKTUNE_MAX_ITERATIONS_def)

lemma QuickTune_Start_fields:
  assumes "s_state q = QUICKTUNE_STATE_IDLE"
  shows "fst (QuickTune_Start q)"
    and "s_state (snd (QuickTune_Start q)) = QUICKTUNE_STATE_MEASURING"
    and "s_current_band (snd (QuickTune_Start q)) = 0"
    and "s_sample_counter (snd (QuickTune_Start q)) = 0"
    and "s_iteration (snd (QuickTune_Start q)) = 0"
    and "s_goertzel_s1 (snd (QuickTune_Start q)) = 0"
    and "s_goertzel_s2 (snd (QuickTune_Start q)) = 0"
    and "s_measured_levels (snd (QuickTune_Start q)) = s_measured_levels q"
    and "s_correction_gains (snd (QuickTune_Start q)) = s_correction_gains q"
    and "s_cumulative_gains (snd (QuickTune_Start q)) = s_cumulative_gains q"
  using assms
  by (simp_all add: QuickTune_Start_def StartBandMeasurement_first Goertzel_Init_def
      ToneGenerator_Init_def Let_def)

lemma length_concat_blocks:
  "\<forall>b\<in>set bs. length b = n \<Longrightarrow> length (concat bs) = n * length bs"
  by (induction bs) simp_all

lemma pass_accounting:
  assumes "s_state q = QUICKTUNE_STATE_MEASURING"
    and "s_current_band q = 0" and "s_sample_counter q = 0"
    and "\<forall>b\<in>set bs. length b = 32" and "length bs = 4500"
  shows "s_state (process_blocks bs q) = QUICKTUNE_STATE_COMPUTING"
    and "s_state (process_blocks (bs @ [c]) q) = QUICKTUNE_STATE_APPLYING"
    and "s_state (process_blocks (bs @ [c, a]) q) =
           (if s_iteration q < 2 then QUICKTUNE_STATE_MEASURING else QUICKTUNE_STATE_DONE)"
    and "s_iteration (process_blocks (bs @ [c, a]) q) =
           (if s_iteration q < 2 then s_iteration q + 1 else s_iteration q)"
proof -
  let ?p = "process_blocks bs q"
  have p: "s_state ?p = QUICKTUNE_STATE_COMPUTING" "s_iteration ?p = s_iteration q"
    using sweep_progress [OF assms(1-4)] assms(5) by simp_all
  show "s_state ?p = QUICKTUNE_STATE_COMPUTING" by (rule p(1))
  have c: "process_blocks (bs @ [c]) q = ComputeCorrectionGains ?p"
    by (simp add: process_blocks_append ProcessBlock_computing p(1))
  show "s_state (process_blocks (bs @ [c]) q) = QUICKTUNE_STATE_APPLYING"
    by (simp add: c ComputeCorrectionGains_fields)
  have a: "process_blocks (bs @ [c, a]) q = ApplyCorrectionGains (ComputeCorrectionGains ?p)"
    by (simp add: process_blocks_append process_blocks_Cons ProcessBlock_computing p(1)
        ProcessBlock_applying ComputeCorrectionGains_fields)
  show "s_state (process_blocks (bs @ [c, a]) q) =
           (if s_iteration q < 2 then QUICKTUNE_STATE_MEASURING else QUICKTUNE_STATE_DONE)"
    by (simp add: a ApplyCorrectionGains_fields ComputeCorrectionGains_fields p(2))
  show "s_iteration (process_blocks (bs @ [c, a]) q) =
           (if s_iteration q < 2 then s_iteration q + 1 else s_iteration q)"
    by (simp add: a ApplyCorrectionGains_fields ComputeCorrectionGains_fields p(2))
qed

text \<open>
  Claim C1. From Idle, \<^verbatim>\<open>QuickTune_Start\<close> succeeds; then, fed blocks of 32 samples, the
  controller is in Measuring as long as fewer than 10 * 14400 = 144000 samples have been
  processed and in Computing when exactly 144000 have been; one more call takes it to
  Applying; and one call after that to Measuring, with the iteration counter at 1 (iteration
  is enabled and 0 is below the maximum of 3 passes, so this first pass does not end in Done;
  \<open>pass_accounting\<close> above is the same account for a pass begun with any iteration counter:
  it ends in Done once the counter has reached 2).
\<close>

theorem ProcessBlock_pass_accounting:
  assumes "s_state q = QUICKTUNE_STATE_IDLE"
    and "\<forall>b\<in>set blocks. length b = QUICKTUNE_BLOCK_SIZE"
  shows "fst (QuickTune_Start q) \<and>
         (length (concat blocks) < 10 * 14400 \<longrightarrow>
            s_state (process_blocks blocks (snd (QuickTune_Start q))) = QUICKTUNE_STATE_MEASURING) \<and>
         (length (concat blocks) = 10 * 14400 \<longrightarrow>
            s_state (process_blocks blocks (snd (QuickTune_Start q))) = QUICKTUNE_STATE_COMPUTING \<and>
            s_state (process_blocks (blocks @ [b1]) (snd (QuickTune_Start q)))
              = QUICKTUNE_STATE_APPLYING \<and>
            s_state (process_blocks (blocks @ [b1, b2]) (snd (QuickTune_Start q)))
              = QUICKTUNE_STATE_MEASURING \<and>
            s_iteration (process_blocks (blocks @ [b1, b2]) (snd (QuickTune_Start q))) = 1)"
proof -
  let ?q = "snd (QuickTune_Start q)"
  note s = QuickTune_Start_fields [OF assms(1)]
  have b: "\<forall>b\<in>set blocks. length b = 32"
    using assms(2) by (simp add: QUICKTUNE_BLOCK_SIZE_def)
  have n: "length (concat blocks) = 32 * length blocks"
    using b by (rule length_concat_blocks)
  have "s_state (process_blocks blocks ?q) = QUICKTUNE_STATE_MEASURING"
    if "length (concat blocks) < 10 * 14400"
  proof -
    have "length blocks < 4500" using that n by simp
    then show ?thesis
      using sweep_progress [OF s(2-4) b] by simp
  qed
  moreover have "s_state (process_blocks blocks ?q) = QUICKTUNE_STATE_COMPUTING \<and>
      s_state (process_blocks (blocks @ [b1]) ?q) = QUICKTUNE_STATE_APPLYING \<and>
      s_state (process_blocks (blocks @ [b1, b2]) ?q) = QUICKTUNE_STATE_MEASURING \<and>
      s_iteration (process_blocks (blocks @ [b1, b2]) ?q) = 1"
    if "length (concat blocks) = 10 * 14400"
  proof -
    have "length blocks = 4500" using that n by simp
    from pass_accounting [OF s(2-4) b this] show ?thesis
      by (simp add: s(5))
  qed
  ultimately show ?thesis
    using s(1) by blast
qed

theorem ProcessBlock_pass_accounting_witness:
  "s_state QuickTune_statics = QUICKTUNE_STATE_IDLE \<and>
   length (concat (replicate 4500 (replicate 32 (0::real)))) = 10 * 14400 \<and>
   s_state (process_blocks (replicate 4500 (replicate 32 0))
              (snd (QuickTune_Start QuickTune_statics))) = QUICKTUNE_STATE_COMPUTING \<and>
   s_state (process_blocks (replicate 4500 (replicate 32 0) @ [replicate 32 0])
              (snd (QuickTune_Start QuickTune_statics))) = QUICKTUNE_STATE_APPLYING \<and>
   s_state (process_blocks (replicate 4500 (replicate 32 0) @ [replicate 32 0, replicate 32 0])
              (snd (QuickTune_Start QuickTune_statics))) = QUICKTUNE_STATE_MEASURING"
proof -
  have h1: "s_state QuickTune_statics = QUICKTUNE_STATE_IDLE"
    by (simp add: QuickTune_statics_def)
  have h2: "\<forall>b\<in>set (replicate 4500 (replicate 32 (0::real))). length b = QUICKTUNE_BLOCK_SIZE"
    by (simp add: QUICKTUNE_BLOCK_SIZE_def)
  have h3: "length (concat (replicate 4500 (replicate 32 (0::real)))) = 10 * 14400"
    using length_concat_blocks [of "replicate 4500 (replicate 32 (0::real))" 32]
    by simp
  show ?thesis
    using h1 h3
      ProcessBlock_pass_accounting [OF h1 h2, of "replicate 32 0" "replicate 32 0"]
    by simp
qed

subsection \<open>A silent measurement pass\<close>

lemma MEMS_bounds: "\<forall>x\<in>set QUICKTUNE_MEMS_CALIBRATION. 0 \<le> x \<and> x \<le> 3"
  by (simp add: QUICKTUNE_MEMS_CALIBRATION_def)

lemma MEMS_length: "length QUICKTUNE_MEMS_CALIBRATION = 10"
  by (simp add: QUICKTUNE_MEMS_CALIBRATION_def)

lemma MEMS_nth_bounds:
  assumes "j < 10"
  shows "0 \<le> QUICKTUNE_MEMS_CALIBRATION ! j \<and> QUICKTUNE_MEMS_CALIBRATION ! j \<le> 3"
proof -
  have "QUICKTUNE_MEMS_CALIBRATION ! j \<in> set QUICKTUNE_MEMS_CALIBRATION"
    using assms by (simp add: MEMS_length)
  then show ?thesis
    using MEMS_bounds by blast
qed

text \<open>
  With a silent microphone the detector's state stays at zero, so each finished band stores
  the floor value plus its calibration offset.
\<close>

lemma silent_sweep:
  assumes "s_state q = QUICKTUNE_STATE_MEASURING"
    and "s_current_band q = 0" and "s_sample_counter q = 0"
    and "s_goertzel_s1 q = 0" and "s_goertzel_s2 q = 0"
    and "length (s_measured_levels q) = 10"
    and "\<forall>b\<in>set bs. b = replicate 32 0" and "length bs \<le> 4500"
  shows "s_goertzel_s1 (process_blocks bs q) = 0 \<and>
         s_goertzel_s2 (process_blocks bs q) = 0 \<and>
         length (s_measured_levels (process_blocks bs q)) = 10 \<and>
         (\<forall>j < length bs div 450.
            s_measured_levels (process_blocks bs q) ! j = - 120 + QUICKTUNE_MEMS_CALIBRATION ! j)"
  using assms(7,8)
proof (induction bs rule: rev_induct)
  case Nil
  then show ?case using assms(4-6) by simp
next
  case (snoc b bs)
  let ?k = "length bs"
  let ?p = "process_blocks bs q"
  have k: "?k < 4500" and b: "b = replicate 32 0"
    using snoc.prems by simp_all
  have len: "\<forall>b\<in>set bs. length b = 32"
    using snoc.prems by auto
  have bl: "length b = 32" and bz: "\<forall>x\<in>set b. x = 0"
    using b by simp_all
  have pos: "s_state ?p = QUICKTUNE_STATE_MEASURING" "s_current_band ?p = int (?k div 450)"
    "unat (s_sample_counter ?p) = 32 * (?k mod 450)"
    using sweep_progress [OF assms(1-3) len] k by simp_all
  have ih: "s_goertzel_s1 ?p = 0" "s_goertzel_s2 ?p = 0" "length (s_measured_levels ?p) = 10"
    "\<forall>j < ?k div 450. s_measured_levels ?p ! j = - 120 + QUICKTUNE_MEMS_CALIBRATION ! j"
    using snoc.IH snoc.prems k by simp_all
  have run: "process_blocks (bs @ [b]) q = fst (measuring_loop b ?p)"
    by (simp add: process_blocks_append ProcessBlock_measuring pos(1))
  note z = measuring_loop_silent [OF ih(1,2) bz]
  show ?case
  proof (cases "?k mod 450 < 449")
    case True
    note a = block_count_within [OF k True]
    have "unat (s_sample_counter ?p) + length b < 14400"
      using pos(3) True bl by simp
    from measuring_loop_within [OF this] z ih(3,4) show ?thesis
      by (simp add: run a(1))
  next
    case False
    note a = block_count_tone_end [OF k False]
    have d: "?k div 450 < 10"
      using k by simp
    have "unat (s_sample_counter ?p) < 14400"
      and "14400 \<le> unat (s_sample_counter ?p) + length b"
      using pos(3) a(1) bl by simp_all
    from measuring_loop_silent_level [OF this ih(1,2) bz] z ih(3,4) d show ?thesis
      by (simp add: run a(2) pos(2) nth_list_update less_Suc_eq)
  qed
qed

lemma measuring_loop_correction_gains:
  "s_correction_gains (fst (measuring_loop xs q)) = s_correction_gains q"
proof (induction xs arbitrary: q)
  case Nil
  then show ?case by simp
next
  case (Cons mic rest)
  have "s_correction_gains (sample_step mic q) = s_correction_gains q"
    by (simp add: sample_step_def ToneGenerator_GetSample_def Goertzel_ProcessSample_def Let_def)
  moreover have "s_correction_gains (tone_end q') = s_correction_gains q'" for q'
    by (simp add: tone_end_def StartBandMeasurement_def ToneGenerator_Init_def
        Goertzel_Init_def Let_def)
  ultimately show ?case
    using Cons.IH by (simp add: measuring_loop_Cons)
qed

lemma sweep_correction_gains:
  assumes "s_state q = QUICKTUNE_STATE_MEASURING"
    and "s_current_band q = 0" and "s_sample_counter q = 0"
    and "\<forall>b\<in>set bs. length b = 32" and "length bs \<le> 4500"
  shows "s_correction_gains (process_blocks bs q) = s_correction_gains q"
  using assms(4,5)
proof (induction bs rule: rev_induct)
  case Nil
  then show ?case by simp
next
  case (snoc b bs)
  have "s_state (process_blocks bs q) = QUICKTUNE_STATE_MEASURING"
    using sweep_progress [OF assms(1-3), of bs] snoc.prems by simp
  then show ?case
    using snoc
    by (simp add: process_blocks_append ProcessBlock_measuring measuring_loop_correction_gains)
qed

lemma silent_pass:
  assumes "s_state q = QUICKTUNE_STATE_IDLE"
    and "length (s_measured_levels q) = 10" and "length (s_correction_gains q) = 10"
    and "\<forall>b\<in>set blocks. b = replicate 32 0" and "length blocks = 4500"
  shows "s_state (process_blocks (blocks @ [c]) (snd (QuickTune_Start q)))
           = QUICKTUNE_STATE_APPLYING"
    and "s_measured_levels (process_blocks (blocks @ [c]) (snd (QuickTune_Start q)))
           = map (\<lambda>cal. - 120 + cal) QUICKTUNE_MEMS_CALIBRATION"
    and "s_correction_gains (process_blocks (blocks @ [c]) (snd (QuickTune_Start q)))
           = replicate 10 QUICKTUNE_MAX_GAIN_DB"
proof -
  let ?q = "snd (QuickTune_Start q)"
  let ?p = "process_blocks blocks ?q"
  note s = QuickTune_Start_fields [OF assms(1)]
  have len: "\<forall>b\<in>set blocks. length b = 32"
    using assms(4) by auto
  have st: "s_state ?p = QUICKTUNE_STATE_COMPUTING"
    using sweep_progress [OF s(2-4) len] assms(5) by simp
  have m: "length (s_measured_levels ?p) = 10"
    "\<forall>j<10. s_measured_levels ?p ! j = - 120 + QUICKTUNE_MEMS_CALIBRATION ! j"
    using silent_sweep [OF s(2-4) s(6,7) _ assms(4)] assms(2,5) by (simp_all add: s(8))
  have lv: "s_measured_levels ?p = map (\<lambda>cal. - 120 + cal) QUICKTUNE_MEMS_CALIBRATION"
    using m by (simp add: list_eq_iff_nth_eq MEMS_length)
  have run: "process_blocks (blocks @ [c]) ?q = ComputeCorrectionGains ?p"
    by (simp add: process_blocks_append ProcessBlock_computing st)
  show "s_state (process_blocks (blocks @ [c]) ?q) = QUICKTUNE_STATE_APPLYING"
    by (simp add: run ComputeCorrectionGains_fields)
  show "s_measured_levels (process_blocks (blocks @ [c]) ?q)
          = map (\<lambda>cal. - 120 + cal) QUICKTUNE_MEMS_CALIBRATION"
    by (simp add: run ComputeCorrectionGains_fields lv)
  have cl: "length (s_correction_gains ?p) = 10"
    using sweep_correction_gains [OF s(2-4) len] assms(3,5) by (simp add: s(9))
  show "s_correction_gains (process_blocks (blocks @ [c]) ?q) = replicate 10 QUICKTUNE_MAX_GAIN_DB"
  proof (rule nth_equalityI)
    show "length (s_correction_gains (process_blocks (blocks @ [c]) ?q))
            = length (replicate 10 QUICKTUNE_MAX_GAIN_DB)"
      by (simp add: run ComputeCorrectionGains_fields cl)
  next
    fix j
    assume "j < length (s_correction_gains (process_blocks (blocks @ [c]) ?q))"
    then have j: "j < 10"
      by (simp add: run ComputeCorrectionGains_fields cl)
    have "clip_gain (- (- 120 + QUICKTUNE_MEMS_CALIBRATION ! j)) = QUICKTUNE_MAX_GAIN_DB"
      using MEMS_nth_bounds [OF j] by (simp add: clip_gain_def config_defs)
    then show "s_correction_gains (process_blocks (blocks @ [c]) ?q) ! j
                 = replicate 10 QUICKTUNE_MAX_GAIN_DB ! j"
      using j m(2) by (simp add: run ComputeCorrectionGains_gains cl)
  qed
qed


text \<open>
  Claim C5, as stated, fails in its first half: the calibration offset of the band is added
  to the floor value before the level is stored. Initialise, start, feed 4500 silent blocks
  of 32 samples (the whole Measuring phase) and one more block (the Computing step): the
  measured level of band 0 is \<open>- 120 + 3 = - 117\<close> dB, not \<open>- 120\<close> dB.
\<close>

theorem silent_pass_level_not_floor:
  "s_measured_levels
     (process_blocks (replicate 4500 (replicate 32 0) @ [replicate 32 0])
        (snd (QuickTune_Start (QuickTune_Init QuickTune_statics)))) ! 0 = - 117 \<and>
   s_measured_levels
     (process_blocks (replicate 4500 (replicate 32 0) @ [replicate 32 0])
        (snd (QuickTune_Start (QuickTune_Init QuickTune_statics)))) \<noteq> replicate 10 (- 120)"
proof -
  let ?q = "QuickTune_Init QuickTune_statics"
  have h: "s_state ?q = QUICKTUNE_STATE_IDLE" "length (s_measured_levels ?q) = 10"
    "length (s_correction_gains ?q) = 10"
    by (simp_all add: QuickTune_Init_def config_defs)
  have b: "\<forall>b\<in>set (replicate 4500 (replicate 32 (0::real))). b = replicate 32 0"
    "length (replicate 4500 (replicate 32 (0::real))) = 4500"
    by simp_all
  have "s_measured_levels
     (process_blocks (replicate 4500 (replicate 32 0) @ [replicate 32 0]) (snd (QuickTune_Start ?q)))
       = map (\<lambda>cal. - 120 + cal) QUICKTUNE_MEMS_CALIBRATION"
    by (rule silent_pass(2) [OF h b])
  also have "\<dots> = [- 117, - 118.5, - 120, - 120, - 120, - 120, - 120, - 120, - 120, - 120]"
    by (simp add: QUICKTUNE_MEMS_CALIBRATION_def)
  finally have lv: "s_measured_levels
     (process_blocks (replicate 4500 (replicate 32 0) @ [replicate 32 0]) (snd (QuickTune_Start ?q)))
       = [- 117, - 118.5, - 120, - 120, - 120, - 120, - 120, - 120, - 120, - 120]" .
  have "[- 117, - 118.5, - 120, - 120, - 120, - 120, - 120, - 120, - 120, - 120]
          \<noteq> replicate 10 (- 120 :: real)"
  proof
    assume "[- 117, - 118.5, - 120, - 120, - 120, - 120, - 120, - 120, - 120, - 120]
              = replicate 10 (- 120 :: real)"
    then have "[- 117, - 118.5, - 120, - 120, - 120, - 120, - 120, - 120, - 120, - 120] ! 0
                 = replicate 10 (- 120 :: real) ! 0"
      by (rule arg_cong)
    then show False
      by simp
  qed
  then show ?thesis
    unfolding lv by simp
qed

text \<open>
  Claim C5, amended. After a Measuring phase with an all-zero microphone input and the
  Computing step, each band's measured level is the floor value plus that band's microphone
  calibration offset, that is \<open>- 117\<close>, \<open>- 118.5\<close> and eight times \<open>- 120\<close> dB, and every
  band's correction gain is the clamp maximum of 12 dB.
\<close>

theorem silent_pass_levels_and_gains:
  assumes "s_state q = QUICKTUNE_STATE_IDLE"
    and "length (s_measured_levels q) = 10" and "length (s_correction_gains q) = 10"
    and "\<forall>b\<in>set blocks. b = replicate 32 0" and "length blocks = 4500"
  shows "s_state (process_blocks (blocks @ [c]) (snd (QuickTune_Start q)))
           = QUICKTUNE_STATE_APPLYING \<and>
         s_measured_levels (process_blocks (blocks @ [c]) (snd (QuickTune_Start q)))
           = [- 117, - 118.5, - 120, - 120, - 120, - 120, - 120, - 120, - 120, - 120] \<and>
         s_correction_gains (process_blocks (blocks @ [c]) (snd (QuickTune_Start q)))
           = replicate 10 12"
  using silent_pass [OF assms, of c]
  by (simp add: QUICKTUNE_MEMS_CALIBRATION_def QUICKTUNE_MAX_GAIN_DB_def)

theorem silent_pass_levels_and_gains_witness:
  "s_state (QuickTune_Init QuickTune_statics) = QUICKTUNE_STATE_IDLE \<and>
   length (s_measured_levels (QuickTune_Init QuickTune_statics)) = 10 \<and>
   length (s_correction_gains (QuickTune_Init QuickTune_statics)) = 10 \<and>
   length (replicate 4500 (replicate 32 (0::real))) = 4500 \<and>
   s_correction_gains
     (process_blocks (replicate 4500 (replicate 32 0) @ [replicate 32 0])
        (snd (QuickTune_Start (QuickTune_Init QuickTune_statics)))) = replicate 10 12"
proof -
  let ?q = "QuickTune_Init QuickTune_statics"
  have h: "s_state ?q = QUICKTUNE_STATE_IDLE" "length (s_measured_levels ?q) = 10"
    "length (s_correction_gains ?q) = 10"
    by (simp_all add: QuickTune_Init_def config_defs)
  have b: "\<forall>b\<in>set (replicate 4500 (replicate 32 (0::real))). b = replicate 32 0"
    "length (replicate 4500 (replicate 32 (0::real))) = 4500"
    by simp_all
  show ?thesis
    using h b(2) silent_pass_levels_and_gains [OF h b, of "replicate 32 0"] by simp
qed

subsection \<open>Damped refinement of the cumulative gains\<close>

lemma two_pass_cumulative:
  assumes "band < 10" and "length (s_cumulative_gains q) = 10" and "s_iteration q = 0"
    and "\<forall>b\<in>set sweep. length b = 32" and "length sweep = 4500"
  shows "s_state (process_blocks (a # sweep) (ComputeCorrectionGains q))
           = QUICKTUNE_STATE_COMPUTING"
    and "s_iteration (process_blocks (a # sweep) (ComputeCorrectionGains q)) = 1"
    and "s_cumulative_gains
           (ComputeCorrectionGains (process_blocks (a # sweep) (ComputeCorrectionGains q))) ! band
         = clip_gain (clip_gain (- (s_measured_levels q ! band))
             + clip_gain (- (s_measured_levels
                               (process_blocks (a # sweep) (ComputeCorrectionGains q)) ! band))
               * QUICKTUNE_DAMPING_FACTOR)"
proof -
  let ?c = "ComputeCorrectionGains q"
  let ?a = "ApplyCorrectionGains ?c"
  let ?p = "process_blocks sweep ?a"
  have it: "s_iteration ?c < 2"
    by (simp add: ComputeCorrectionGains_fields assms(3))
  have run: "process_blocks (a # sweep) ?c = ?p"
    by (simp add: process_blocks_Cons ProcessBlock_applying ComputeCorrectionGains_fields)
  have a: "s_state ?a = QUICKTUNE_STATE_MEASURING" "s_current_band ?a = 0"
    "s_sample_counter ?a = 0"
    using it by (simp_all add: ApplyCorrectionGains_fields)
  have a': "s_iteration ?a = 1" "s_cumulative_gains ?a = s_cumulative_gains ?c"
    by (simp_all add: ApplyCorrectionGains_fields ComputeCorrectionGains_fields assms(3))
  have p: "s_state ?p = QUICKTUNE_STATE_COMPUTING" "s_iteration ?p = 1"
    "s_cumulative_gains ?p = s_cumulative_gains ?c"
    using sweep_progress [OF a assms(4)] assms(5) by (simp_all add: a')
  show "s_state (process_blocks (a # sweep) ?c) = QUICKTUNE_STATE_COMPUTING"
    and "s_iteration (process_blocks (a # sweep) ?c) = 1"
    by (simp_all add: run p)
  have l: "band < length (s_cumulative_gains q)" "band < length (s_cumulative_gains ?p)"
    using assms(1,2) by (simp_all add: p ComputeCorrectionGains_fields)
  show "s_cumulative_gains (ComputeCorrectionGains (process_blocks (a # sweep) ?c)) ! band
         = clip_gain (clip_gain (- (s_measured_levels q ! band))
             + clip_gain (- (s_measured_levels (process_blocks (a # sweep) ?c) ! band))
               * QUICKTUNE_DAMPING_FACTOR)"
    unfolding run
    using ComputeCorrectionGains_gains(2) [OF assms(1) l(2)]
      ComputeCorrectionGains_gains(2) [OF assms(1) l(1)]
    by (simp add: p assms(3))
qed

lemma fixed_deviation_clip:
  assumes "d' = d \<or> d' = d + clip_gain (- d)"
  shows "clip_gain (clip_gain (- d) + clip_gain (- d') * QUICKTUNE_DAMPING_FACTOR)
           = clip_gain (clip_gain (- d) + (- d') * QUICKTUNE_DAMPING_FACTOR)"
  using assms by (auto simp: clip_gain_def config_defs Let_def)

lemma damping_fixed_deviation:
  assumes "band < 10" and "length (s_cumulative_gains q) = 10"
  shows "(s_iteration q = 0 \<longrightarrow>
            s_cumulative_gains (ComputeCorrectionGains q) ! band
              = clip_gain (- (s_measured_levels q ! band))) \<and>
         (s_iteration q \<noteq> 0 \<and>
          s_cumulative_gains q ! band = clip_gain (- d) \<and>
          (s_measured_levels q ! band = d \<or>
           s_measured_levels q ! band = d + clip_gain (- d)) \<longrightarrow>
            s_cumulative_gains (ComputeCorrectionGains q) ! band
              = clip_gain (clip_gain (- d)
                  + (- (s_measured_levels q ! band)) * QUICKTUNE_DAMPING_FACTOR)) \<and>
         (s_iteration q = 0 \<and> (\<forall>b\<in>set sweep. length b = 32) \<and> length sweep = 4500 \<and>
          (s_measured_levels (process_blocks (a # sweep) (ComputeCorrectionGains q)) ! band
             = s_measured_levels q ! band \<or>
           s_measured_levels (process_blocks (a # sweep) (ComputeCorrectionGains q)) ! band
             = s_measured_levels q ! band + clip_gain (- (s_measured_levels q ! band))) \<longrightarrow>
            s_state (process_blocks (a # sweep) (ComputeCorrectionGains q))
              = QUICKTUNE_STATE_COMPUTING \<and>
            s_iteration (process_blocks (a # sweep) (ComputeCorrectionGains q)) = 1 \<and>
            s_cumulative_gains
              (ComputeCorrectionGains
                 (process_blocks (a # sweep) (ComputeCorrectionGains q))) ! band
              = clip_gain (clip_gain (- (s_measured_levels q ! band))
                  + (- (s_measured_levels
                          (process_blocks (a # sweep) (ComputeCorrectionGains q)) ! band))
                    * QUICKTUNE_DAMPING_FACTOR))"
proof -
  have l: "band < length (s_cumulative_gains q)"
    using assms by simp
  note g = ComputeCorrectionGains_gains(2) [OF assms(1) l]
  have A: "s_cumulative_gains (ComputeCorrectionGains q) ! band
             = clip_gain (- (s_measured_levels q ! band))"
    if "s_iteration q = 0"
    using g that by simp
  have B: "s_cumulative_gains (ComputeCorrectionGains q) ! band
             = clip_gain (clip_gain (- d)
                 + (- (s_measured_levels q ! band)) * QUICKTUNE_DAMPING_FACTOR)"
    if h1: "s_iteration q \<noteq> 0" and h2: "s_cumulative_gains q ! band = clip_gain (- d)"
      and h3: "s_measured_levels q ! band = d \<or>
               s_measured_levels q ! band = d + clip_gain (- d)"
  proof -
    have "s_cumulative_gains (ComputeCorrectionGains q) ! band
            = clip_gain (clip_gain (- d)
                + clip_gain (- (s_measured_levels q ! band)) * QUICKTUNE_DAMPING_FACTOR)"
      using g h1 by (simp add: h2)
    also have "\<dots> = clip_gain (clip_gain (- d)
                + (- (s_measured_levels q ! band)) * QUICKTUNE_DAMPING_FACTOR)"
      by (rule fixed_deviation_clip [OF h3])
    finally show ?thesis .
  qed
  let ?q1 = "process_blocks (a # sweep) (ComputeCorrectionGains q)"
  have C: "s_state ?q1 = QUICKTUNE_STATE_COMPUTING \<and> s_iteration ?q1 = 1 \<and>
           s_cumulative_gains (ComputeCorrectionGains ?q1) ! band
             = clip_gain (clip_gain (- (s_measured_levels q ! band))
                 + (- (s_measured_levels ?q1 ! band)) * QUICKTUNE_DAMPING_FACTOR)"
    if s: "s_iteration q = 0" "\<forall>b\<in>set sweep. length b = 32" "length sweep = 4500"
      and h3: "s_measured_levels ?q1 ! band = s_measured_levels q ! band \<or>
               s_measured_levels ?q1 ! band
                 = s_measured_levels q ! band + clip_gain (- (s_measured_levels q ! band))"
  proof -
    note t = two_pass_cumulative [OF assms s, of a]
    have "s_cumulative_gains (ComputeCorrectionGains ?q1) ! band
            = clip_gain (clip_gain (- (s_measured_levels q ! band))
                + (- (s_measured_levels ?q1 ! band)) * QUICKTUNE_DAMPING_FACTOR)"
      unfolding t(3) by (rule fixed_deviation_clip [OF h3])
    with t(1,2) show ?thesis
      by blast
  qed
  from A B C show ?thesis
    by blast
qed

text \<open>
  Claim C3. For every band the Computing step on iteration 0 sets the cumulative gain to
  \<open>clamp (- d)\<close>, with \<open>d\<close> the measured deviation and \<open>clamp\<close> the clipping to
  \<open>[-12, 12]\<close> dB. Under a fixed deviation \<open>d\<close>, that is when the level \<open>d'\<close> measured on
  iteration 1 is \<open>d\<close> again or is \<open>d\<close> plus the gain \<open>clamp (- d)\<close> applied after
  iteration 0, the Computing step of iteration 1 sets the cumulative gain to
  \<open>clamp (clamp (- d) + (- d') * 0.7)\<close>: the damped negated deviation is added to the
  previous cumulative gain and the sum is clipped again. The second conjunct is that step
  alone, for statics that carry \<open>clamp (- d)\<close> from the first iteration; the third runs the
  code from the Computing step of iteration 0 through Applying and the 4500 blocks of the
  next measuring pass.
\<close>

theorem ComputeCorrectionGains_damping:
  assumes "band < 10" and "length (s_cumulative_gains q) = 10"
  shows "(s_iteration q = 0 \<longrightarrow>
            s_cumulative_gains (ComputeCorrectionGains q) ! band
              = max (- 12) (min 12 (- (s_measured_levels q ! band)))) \<and>
         (s_iteration q \<noteq> 0 \<and>
          s_cumulative_gains q ! band = max (- 12) (min 12 (- d)) \<and>
          (s_measured_levels q ! band = d \<or>
           s_measured_levels q ! band = d + max (- 12) (min 12 (- d))) \<longrightarrow>
            s_cumulative_gains (ComputeCorrectionGains q) ! band
              = max (- 12) (min 12 (max (- 12) (min 12 (- d))
                                      + (- (s_measured_levels q ! band)) * 0.7))) \<and>
         (s_iteration q = 0 \<and> (\<forall>b\<in>set sweep. length b = 32) \<and> length sweep = 4500 \<and>
          (s_measured_levels (process_blocks (a # sweep) (ComputeCorrectionGains q)) ! band
             = s_measured_levels q ! band \<or>
           s_measured_levels (process_blocks (a # sweep) (ComputeCorrectionGains q)) ! band
             = s_measured_levels q ! band + max (- 12) (min 12 (- (s_measured_levels q ! band)))) \<longrightarrow>
            s_state (process_blocks (a # sweep) (ComputeCorrectionGains q))
              = QUICKTUNE_STATE_COMPUTING \<and>
            s_iteration (process_blocks (a # sweep) (ComputeCorrectionGains q)) = 1 \<and>
            s_cumulative_gains
              (ComputeCorrectionGains
                 (process_blocks (a # sweep) (ComputeCorrectionGains q))) ! band
              = max (- 12) (min 12 (max (- 12) (min 12 (- (s_measured_levels q ! band)))
                  + (- (s_measured_levels
                          (process_blocks (a # sweep) (ComputeCorrectionGains q)) ! band)) * 0.7)))"
  using damping_fixed_deviation [OF assms, of d sweep a]
  unfolding clip_gain_max_min QUICKTUNE_DAMPING_FACTOR_def .

theorem ComputeCorrectionGains_damping_witness:
  "(0::nat) < 10 \<and>
   s_iteration (QuickTune_statics\<lparr> s_measured_levels := replicate 10 5 \<rparr>) = 0 \<and>
   s_cumulative_gains
     (ComputeCorrectionGains (QuickTune_statics\<lparr> s_measured_levels := replicate 10 5 \<rparr>)) ! 0
     = - 5 \<and>
   s_iteration
     ((ComputeCorrectionGains (QuickTune_statics\<lparr> s_measured_levels := replicate 10 5 \<rparr>))
        \<lparr> s_iteration := 1 \<rparr>) \<noteq> 0 \<and>
   s_cumulative_gains
     (ComputeCorrectionGains
        ((ComputeCorrectionGains (QuickTune_statics\<lparr> s_measured_levels := replicate 10 5 \<rparr>))
           \<lparr> s_iteration := 1 \<rparr>)) ! 0
     = - 8.5 \<and>
   length (replicate 4500 (replicate 32 (0::real))) = 4500 \<and>
   s_measured_levels
     (process_blocks (replicate 4500 (replicate 32 0))
        (snd (QuickTune_Start (QuickTune_Init QuickTune_statics)))) ! 0 = - 117 \<and>
   s_measured_levels
     (process_blocks ([] # replicate 4500 (replicate 32 0))
        (ComputeCorrectionGains
           (process_blocks (replicate 4500 (replicate 32 0))
              (snd (QuickTune_Start (QuickTune_Init QuickTune_statics)))))) ! 0 = - 117 \<and>
   s_cumulative_gains
     (ComputeCorrectionGains
        (process_blocks ([] # replicate 4500 (replicate 32 0))
           (ComputeCorrectionGains
              (process_blocks (replicate 4500 (replicate 32 0))
                 (snd (QuickTune_Start (QuickTune_Init QuickTune_statics))))))) ! 0 = 12"
proof -
  have h1: "(0::nat) < 10"
    by simp
  let ?qa = "QuickTune_statics\<lparr> s_measured_levels := replicate 10 5 \<rparr>"
  let ?qb = "(ComputeCorrectionGains ?qa)\<lparr> s_iteration := 1 \<rparr>"
  have a: "length (s_cumulative_gains ?qa) = 10" "s_iteration ?qa = 0"
    "s_measured_levels ?qa ! 0 = 5"
    by (simp_all add: QuickTune_statics_def config_defs)
  have A: "s_cumulative_gains (ComputeCorrectionGains ?qa) ! 0 = - 5"
    using ComputeCorrectionGains_damping [OF h1 a(1), where d = 0 and sweep = "[]" and a = "[]"] a(2,3)
    by simp
  have b: "length (s_cumulative_gains ?qb) = 10" "s_iteration ?qb \<noteq> 0"
    "s_measured_levels ?qb ! 0 = 5" "s_cumulative_gains ?qb ! 0 = - 5"
    using a A by (simp_all add: ComputeCorrectionGains_fields)
  have B: "s_cumulative_gains (ComputeCorrectionGains ?qb) ! 0 = - 8.5"
    using ComputeCorrectionGains_damping [OF h1 b(1), where d = 5 and sweep = "[]" and a = "[]"] b(2,3,4)
    by simp
  let ?S = "replicate 4500 (replicate 32 (0::real))"
  let ?start = "snd (QuickTune_Start (QuickTune_Init QuickTune_statics))"
  let ?first = "process_blocks ?S ?start"
  let ?qc = "ComputeCorrectionGains ?first"
  let ?qp = "ApplyCorrectionGains ?qc"
  let ?second = "process_blocks ([] # ?S) ?qc"
  have i: "s_state (QuickTune_Init QuickTune_statics) = QUICKTUNE_STATE_IDLE"
    "length (s_measured_levels (QuickTune_Init QuickTune_statics)) = 10"
    "length (s_cumulative_gains (QuickTune_Init QuickTune_statics)) = 10"
    by (simp_all add: QuickTune_Init_def config_defs)
  note s = QuickTune_Start_fields [OF i(1)]
  have z: "\<forall>b\<in>set ?S. b = replicate 32 0" and n: "length ?S \<le> 4500"
    and n': "length ?S = 4500"
    by simp_all
  have len: "\<forall>b\<in>set ?S. length b = 32"
    by simp
  have m0: "length (s_measured_levels ?start) = 10"
    by (simp add: s(8) i(2))
  have q: "s_iteration ?first = 0" "length (s_cumulative_gains ?first) = 10"
    using sweep_progress [OF s(2-4) len n] by (simp_all add: s(5,10) i(3))
  have d: "(0::nat) < length ?S div 450"
    by simp
  have c0: "- 120 + QUICKTUNE_MEMS_CALIBRATION ! 0 = - 117"
    by (simp add: QUICKTUNE_MEMS_CALIBRATION_def)
  note ss = silent_sweep [OF s(2-4) s(6,7) m0 z n]
  have mq1: "length (s_measured_levels ?first) = 10"
    using ss by blast
  have "s_measured_levels ?first ! 0 = - 120 + QUICKTUNE_MEMS_CALIBRATION ! 0"
    using ss d by blast
  then have mq2: "s_measured_levels ?first ! 0 = - 117"
    by (simp only: c0)
  note mq = mq1 mq2
  have it: "s_iteration ?qc < 2"
    by (simp add: ComputeCorrectionGains_fields q(1))
  have p: "s_state ?qp = QUICKTUNE_STATE_MEASURING" "s_current_band ?qp = 0"
    "s_sample_counter ?qp = 0" "s_goertzel_s1 ?qp = 0" "s_goertzel_s2 ?qp = 0"
    using it by (simp_all add: ApplyCorrectionGains_fields)
  have mp: "length (s_measured_levels ?qp) = 10"
    by (simp add: ApplyCorrectionGains_fields ComputeCorrectionGains_fields mq(1))
  have run: "?second = process_blocks ?S ?qp"
    by (simp add: process_blocks_Cons ProcessBlock_applying ComputeCorrectionGains_fields)
  have "s_measured_levels (process_blocks ?S ?qp) ! 0 = - 120 + QUICKTUNE_MEMS_CALIBRATION ! 0"
    using silent_sweep [OF p mp z n] d by blast
  then have m1: "s_measured_levels ?second ! 0 = - 117"
    by (simp only: c0 run)
  have same: "s_measured_levels ?second ! 0 = s_measured_levels ?first ! 0"
    by (simp only: m1 mq(2))
  have C: "s_cumulative_gains (ComputeCorrectionGains ?second) ! 0 = 12"
    using ComputeCorrectionGains_damping [OF h1 q(2), where d = 0 and sweep = ?S and a = "[]"] q(1) len n' same
    by (simp add: m1 mq(2))
  show ?thesis
    using h1 a(2) A b(2) B n' mq(2) m1 C by simp
qed

end
